theory Spec2Isabelle
  imports
    Main
    "HOL-Library.Word"
    "HOL-Library.Sublist"
    "HOL-Library.Char_ord"
    "HOL-Library.List_Lexorder"
begin

unbundle bit_operations_syntax

section \<open>Python dictionaries and strings\<close>

text \<open>
  The services pass events around as Python dictionaries.  A key that the code reads with
  \<^verbatim>\<open>d.get(key)\<close> is a field of type \<open>'a option\<close> of a record (\<open>None\<close>: the key is
  absent; \<^verbatim>\<open>serialize_event\<close> drops every key whose value is \<^verbatim>\<open>None\<close> before an event
  reaches the store).  A value that is present has the type the schema gives it.
  Strings are lists of characters with code points below 256; Python compares strings
  by code point, which is the lexicographic order of HOL-Library on \<open>char list\<close>.
  \<^verbatim>\<open>s.startswith(p)\<close> is \<open>prefix p s\<close> and \<^verbatim>\<open>x in s\<close> on strings is \<open>sublist x s\<close>.
\<close>

definition get_default :: "'a option \<Rightarrow> 'a \<Rightarrow> 'a" where
  \<comment> \<open>\<^verbatim>\<open>d.get(key, default)\<close> for a key modelled as an optional field\<close>
  "get_default v dflt = (case v of None \<Rightarrow> dflt | Some x \<Rightarrow> x)"

definition dict_get :: "('k \<times> 'v) list \<Rightarrow> 'k \<Rightarrow> 'v \<Rightarrow> 'v" where
  \<comment> \<open>\<^verbatim>\<open>table.get(key, default)\<close> for a literal table\<close>
  "dict_get table k dflt = (case map_of table k of None \<Rightarrow> dflt | Some v \<Rightarrow> v)"

definition truthy_str :: "string option \<Rightarrow> bool" where
  \<comment> \<open>Python truth of an optional string: present and not empty\<close>
  "truthy_str v = (case v of None \<Rightarrow> False | Some s \<Rightarrow> s \<noteq> [])"

fun py_or :: "string option \<Rightarrow> string \<Rightarrow> string" where
  \<comment> \<open>\<^verbatim>\<open>d.get(key) or other\<close>\<close>
  "py_or None other = other"
| "py_or (Some s) other = (if s = [] then other else s)"

definition newline :: char where
  "newline = CHR 0x0A"

definition ascii_lower :: "char \<Rightarrow> char" where
  "ascii_lower c = (let n = of_char c :: nat in if 65 \<le> n \<and> n \<le> 90 then char_of (n + 32) else c)"

definition py_lower :: "string \<Rightarrow> string" where
  \<comment> \<open>\<^verbatim>\<open>str.lower()\<close> on code points below 256: A-Z and the Latin-1 capitals\<close>
  "py_lower s = map (\<lambda>c. let n = of_char c :: nat in
       if (65 \<le> n \<and> n \<le> 90) \<or> (192 \<le> n \<and> n \<le> 222 \<and> n \<noteq> 215) then char_of (n + 32) else c) s"

definition replace_char :: "char \<Rightarrow> string \<Rightarrow> string \<Rightarrow> string" where
  \<comment> \<open>\<^verbatim>\<open>s.replace(c, new)\<close> for a one-character pattern\<close>
  "replace_char c new s = concat (map (\<lambda>x. if x = c then new else [x]) s)"

definition split_first :: "char \<Rightarrow> string \<Rightarrow> string" where
  \<comment> \<open>\<^verbatim>\<open>s.split(c)[0]\<close>\<close>
  "split_first c s = takeWhile (\<lambda>x. x \<noteq> c) s"

subsection \<open>The regular expressions of the severity patterns\<close>

text \<open>
  The four patterns of \<^verbatim>\<open>CRITICAL_SEVERITY_PATTERNS\<close> are sequences of \<^verbatim>\<open>.*\<close> and of
  literal words.  \<open>re_match\<close> is \<^verbatim>\<open>re.match(pattern, s, re.IGNORECASE)\<close> on such a
  pattern: the match starts at the first character and need not reach the end; the dot
  matches every character but the newline; a letter of the pattern matches both of its
  cases (for code points below 256 no other character folds to an ASCII letter).
\<close>

datatype regex_item = AnyStar | Lit string

definition ci_equal :: "string \<Rightarrow> string \<Rightarrow> bool" where
  "ci_equal v w = (map ascii_lower v = map ascii_lower w)"

fun re_match :: "regex_item list \<Rightarrow> string \<Rightarrow> bool" where
  "re_match [] s = True"
| "re_match (Lit w # ps) s = (ci_equal (take (length w) s) w \<and> re_match ps (drop (length w) s))"
| "re_match (AnyStar # ps) [] = re_match ps []"
| "re_match (AnyStar # ps) (c # cs) =
     (re_match ps (c # cs) \<or> (c \<noteq> newline \<and> re_match (AnyStar # ps) cs))"

section \<open>SHA-256 (\<^verbatim>\<open>hashlib.sha256(s.encode()).hexdigest()\<close>)\<close>

text \<open>
  The correlation id is a prefix of a SHA-256 digest, so the hash function is part of the
  model: FIPS 180-4 on 32-bit words, with the message schedule kept as a window of sixteen
  words that moves by one word per round.  \<open>encode\<close> is \<^verbatim>\<open>str.encode()\<close> (UTF-8) on code
  points below 256.
\<close>

definition rotr :: "nat \<Rightarrow> 32 word \<Rightarrow> 32 word" where
  "rotr n x = drop_bit n x OR push_bit (32 - n) x"

definition Ch :: "32 word \<Rightarrow> 32 word \<Rightarrow> 32 word \<Rightarrow> 32 word" where
  "Ch x y z = (x AND y) XOR (NOT x AND z)"

definition Maj :: "32 word \<Rightarrow> 32 word \<Rightarrow> 32 word \<Rightarrow> 32 word" where
  "Maj x y z = (x AND y) XOR (x AND z) XOR (y AND z)"

definition bsig0 :: "32 word \<Rightarrow> 32 word" where
  "bsig0 x = rotr 2 x XOR rotr 13 x XOR rotr 22 x"

definition bsig1 :: "32 word \<Rightarrow> 32 word" where
  "bsig1 x = rotr 6 x XOR rotr 11 x XOR rotr 25 x"

definition ssig0 :: "32 word \<Rightarrow> 32 word" where
  "ssig0 x = rotr 7 x XOR rotr 18 x XOR drop_bit 3 x"

definition ssig1 :: "32 word \<Rightarrow> 32 word" where
  "ssig1 x = rotr 17 x XOR rotr 19 x XOR drop_bit 10 x"

definition sha256_K :: "32 word list" where
  "sha256_K =
    [0x428A2F98, 0x71374491, 0xB5C0FBCF, 0xE9B5DBA5, 0x3956C25B, 0x59F111F1, 0x923F82A4, 0xAB1C5ED5,
     0xD807AA98, 0x12835B01, 0x243185BE, 0x550C7DC3, 0x72BE5D74, 0x80DEB1FE, 0x9BDC06A7, 0xC19BF174,
     0xE49B69C1, 0xEFBE4786, 0x0FC19DC6, 0x240CA1CC, 0x2DE92C6F, 0x4A7484AA, 0x5CB0A9DC, 0x76F988DA,
     0x983E5152, 0xA831C66D, 0xB00327C8, 0xBF597FC7, 0xC6E00BF3, 0xD5A79147, 0x06CA6351, 0x14292967,
     0x27B70A85, 0x2E1B2138, 0x4D2C6DFC, 0x53380D13, 0x650A7354, 0x766A0ABB, 0x81C2C92E, 0x92722C85,
     0xA2BFE8A1, 0xA81A664B, 0xC24B8B70, 0xC76C51A3, 0xD192E819, 0xD6990624, 0xF40E3585, 0x106AA070,
     0x19A4C116, 0x1E376C08, 0x2748774C, 0x34B0BCB5, 0x391C0CB3, 0x4ED8AA4A, 0x5B9CCA4F, 0x682E6FF3,
     0x748F82EE, 0x78A5636F, 0x84C87814, 0x8CC70208, 0x90BEFFFA, 0xA4506CEB, 0xBEF9A3F7, 0xC67178F2]"

definition sha256_H0 :: "32 word list" where
  "sha256_H0 = [0x6A09E667, 0xBB67AE85, 0x3C6EF372, 0xA54FF53A,
                0x510E527F, 0x9B05688C, 0x1F83D9AB, 0x5BE0CD19]"

definition sha256_pad :: "8 word list \<Rightarrow> 8 word list" where
  "sha256_pad bs =
     (let n = length bs; k = (55 + 64 - n mod 64) mod 64
      in bs @ [0x80] @ replicate k 0 @
         map (\<lambda>i. ucast (drop_bit (8 * i) (word_of_nat (8 * n) :: 64 word))) (rev [0..<8]))"

fun be_words :: "8 word list \<Rightarrow> 32 word list" where
  "be_words (a # b # c # d # bs) =
     (push_bit 24 (ucast a) OR push_bit 16 (ucast b) OR push_bit 8 (ucast c) OR ucast d)
       # be_words bs"
| "be_words _ = []"

fun blocks :: "32 word list \<Rightarrow> 32 word list list" where
  "blocks [] = []"
| "blocks (w # ws) = take 16 (w # ws) # blocks (drop 16 (w # ws))"

fun sha_step :: "32 word \<Rightarrow> 32 word list \<times> 32 word list \<Rightarrow> 32 word list \<times> 32 word list" where
  "sha_step k ([w0, w1, w2, w3, w4, w5, w6, w7, w8, w9, w10, w11, w12, w13, w14, w15],
               [a, b, c, d, e, f, g, h]) =
     (let t1 = h + bsig1 e + Ch e f g + k + w0;
          t2 = bsig0 a + Maj a b c
      in ([w1, w2, w3, w4, w5, w6, w7, w8, w9, w10, w11, w12, w13, w14, w15,
           ssig1 w14 + w9 + ssig0 w1 + w0],
          [t1 + t2, a, b, c, d + t1, e, f, g]))"
| "sha_step k p = p"

definition compress :: "32 word list \<Rightarrow> 32 word list \<Rightarrow> 32 word list" where
  "compress block hs = map2 (+) hs (snd (fold sha_step sha256_K (block, hs)))"

definition hex_digit :: "nat \<Rightarrow> char" where
  "hex_digit n = ''0123456789abcdef'' ! n"

definition hex32 :: "32 word \<Rightarrow> string" where
  "hex32 w = map (\<lambda>i. hex_digit (unat (drop_bit (4 * i) w AND 0xF))) (rev [0..<8])"

definition sha256_hexdigest :: "8 word list \<Rightarrow> string" where
  "sha256_hexdigest bs =
     concat (map hex32 (fold compress (blocks (be_words (sha256_pad bs))) sha256_H0))"

definition encode :: "string \<Rightarrow> 8 word list" where
  "encode s = concat (map (\<lambda>c. let n = of_char c :: nat in
      if n < 128 then [word_of_nat n]
      else [word_of_nat (192 + n div 64), word_of_nat (128 + n mod 64)]) s)"

section \<open>The event model (models/events.py)\<close>

datatype EventSeverity = CRITICAL | HIGH | MEDIUM | LOW | INFO

fun severity_value :: "EventSeverity \<Rightarrow> string" where
  "severity_value CRITICAL = ''critical''"
| "severity_value HIGH = ''high''"
| "severity_value MEDIUM = ''medium''"
| "severity_value LOW = ''low''"
| "severity_value INFO = ''info''"

datatype EventStatus = NEW | PROCESSING | PROCESSED | CORRELATED | ALERTED

datatype EventSource = CLOUDTRAIL | GUARDDUTY | SECURITYHUB | CUSTOM

record MitreAttackInfo =
  mi_tactic :: "string option"
  mi_technique_id :: "string option"
  mi_technique_name :: "string option"

record AWSContext =
  account_id :: "string option"
  region :: "string option"
  service :: "string option"
  resource_arn :: "string option"
  resource_type :: "string option"

record ActorInfo =
  principal_id :: "string option"
  principal_type :: "string option"
  arn :: "string option"
  access_key_id :: "string option"
  user_name :: "string option"
  session_name :: "string option"

record NetworkInfo =
  ni_source_ip :: "string option"
  ni_source_port :: "int option"
  ni_destination_ip :: "string option"
  ni_destination_port :: "int option"
  ni_protocol :: "string option"
  ni_user_agent :: "string option"

definition NetworkInfo_default :: NetworkInfo where
  \<comment> \<open>\<^verbatim>\<open>NetworkInfo()\<close>: every field at its default\<close>
  "NetworkInfo_default = \<lparr>ni_source_ip = None, ni_source_port = None, ni_destination_ip = None,
     ni_destination_port = None, ni_protocol = None, ni_user_agent = None\<rparr>"

text \<open>
  \<open>SecurityEvent\<close>, the output of the normalizers.  \<open>'t\<close> is the type of
  \<^verbatim>\<open>datetime\<close> values and \<open>'r\<close> the type of the raw record kept in \<open>raw_event\<close>.  The
  field \<^verbatim>\<open>metadata\<close> (untyped) is left out.
\<close>

record ('t, 'r) SecurityEvent =
  se_event_id :: string
  se_source :: EventSource
  se_source_event_id :: "string option"
  se_event_time :: 't
  se_ingested_at :: 't
  se_processed_at :: "'t option"
  se_event_type :: string
  se_event_category :: string
  se_severity :: EventSeverity
  se_status :: EventStatus
  se_title :: string
  se_description :: "string option"
  se_aws_context :: "AWSContext option"
  se_actor :: "ActorInfo option"
  se_network :: "NetworkInfo option"
  se_mitre_attack :: "MitreAttackInfo option"
  se_correlation_id :: "string option"
  se_related_event_ids :: "string list"
  se_raw_event :: "'r option"
  se_tags :: "string list"

text \<open>
  A value of a raw record as the ingest endpoint receives it (\<^verbatim>\<open>Dict[str, Any]\<close> read from a
  JSON body), and what the constructor of a pydantic model does with a value handed to a
  field of type \<^verbatim>\<open>Optional[str]\<close>: an absent key (\<^verbatim>\<open>.get\<close> gives \<^verbatim>\<open>None\<close>), a null and a
  string are accepted, every other value raises \<^verbatim>\<open>ValidationError\<close>.  A number with a
  fraction is the 64 bits of its double.
\<close>

datatype json = JNull | JBool bool | JInt int | JFloat "64 word" | JStr string
  | JList "json list" | JDict "(string \<times> json) list"

datatype py_error = ValidationError

fun pydantic_optional_str :: "json option \<Rightarrow> py_error + string option" where
  "pydantic_optional_str None = Inr None"
| "pydantic_optional_str (Some JNull) = Inr None"
| "pydantic_optional_str (Some (JStr s)) = Inr (Some s)"
| "pydantic_optional_str (Some v) = Inl ValidationError"

text \<open>
  What a normalizer takes from its environment: the readings of \<^verbatim>\<open>datetime.utcnow()\<close> in
  the order the code takes them, the library functions \<^verbatim>\<open>isoformat\<close> and
  \<^verbatim>\<open>fromisoformat\<close> (\<open>None\<close>: it raises \<^verbatim>\<open>ValueError\<close>), and the fresh \<^verbatim>\<open>uuid4\<close>.
\<close>

record 't py_env =
  utcnow_default :: 't
  utcnow_except :: 't
  utcnow_ingested :: 't
  isoformat :: "'t \<Rightarrow> string"
  fromisoformat :: "string \<Rightarrow> 't option"
  uuid4 :: string

section \<open>The CloudTrail normalizer (normalizers/cloudtrail.py)\<close>

definition mitre :: "string \<Rightarrow> string \<Rightarrow> string \<Rightarrow> MitreAttackInfo" where
  "mitre t i n = \<lparr>mi_tactic = Some t, mi_technique_id = Some i, mi_technique_name = Some n\<rparr>"

definition MITRE_MAPPINGS :: "(string \<times> MitreAttackInfo) list" where
  "MITRE_MAPPINGS =
    [(''ConsoleLogin'', mitre ''Initial Access'' ''T1078'' ''Valid Accounts''),
     (''CreateUser'', mitre ''Persistence'' ''T1136.003'' ''Create Account: Cloud Account''),
     (''CreateAccessKey'', mitre ''Persistence'' ''T1098.001''
        ''Account Manipulation: Additional Cloud Credentials''),
     (''CreateRole'', mitre ''Persistence'' ''T1098'' ''Account Manipulation''),
     (''AttachUserPolicy'', mitre ''Persistence'' ''T1098'' ''Account Manipulation''),
     (''AttachRolePolicy'', mitre ''Persistence'' ''T1098'' ''Account Manipulation''),
     (''AssumeRole'', mitre ''Privilege Escalation'' ''T1548'' ''Abuse Elevation Control Mechanism''),
     (''UpdateAssumeRolePolicy'', mitre ''Privilege Escalation'' ''T1548''
        ''Abuse Elevation Control Mechanism''),
     (''StopLogging'', mitre ''Defense Evasion'' ''T1562.008'' ''Impair Defenses: Disable Cloud Logs''),
     (''DeleteTrail'', mitre ''Defense Evasion'' ''T1562.008'' ''Impair Defenses: Disable Cloud Logs''),
     (''UpdateTrail'', mitre ''Defense Evasion'' ''T1562.008'' ''Impair Defenses: Disable Cloud Logs''),
     (''PutEventSelectors'', mitre ''Defense Evasion'' ''T1562.008''
        ''Impair Defenses: Disable Cloud Logs''),
     (''DeleteFlowLogs'', mitre ''Defense Evasion'' ''T1562.008'' ''Impair Defenses: Disable Cloud Logs''),
     (''GetSecretValue'', mitre ''Credential Access'' ''T1555'' ''Credentials from Password Stores''),
     (''GetPasswordData'', mitre ''Credential Access'' ''T1555'' ''Credentials from Password Stores''),
     (''DescribeInstances'', mitre ''Discovery'' ''T1580'' ''Cloud Infrastructure Discovery''),
     (''ListBuckets'', mitre ''Discovery'' ''T1580'' ''Cloud Infrastructure Discovery''),
     (''ListUsers'', mitre ''Discovery'' ''T1087.004'' ''Account Discovery: Cloud Account''),
     (''ListRoles'', mitre ''Discovery'' ''T1087.004'' ''Account Discovery: Cloud Account''),
     (''GetObject'', mitre ''Exfiltration'' ''T1530'' ''Data from Cloud Storage''),
     (''DeleteBucket'', mitre ''Impact'' ''T1485'' ''Data Destruction''),
     (''TerminateInstances'', mitre ''Impact'' ''T1489'' ''Service Stop'')]"

definition HIGH_SEVERITY_EVENTS :: "string list" where
  "HIGH_SEVERITY_EVENTS =
    [''ConsoleLogin'', ''CreateUser'', ''CreateAccessKey'', ''DeleteTrail'', ''StopLogging'',
     ''PutBucketPolicy'', ''PutBucketAcl'', ''AuthorizeSecurityGroupIngress'',
     ''CreateSecurityGroup'', ''ModifyInstanceAttribute'', ''RunInstances'']"

definition CRITICAL_SEVERITY_PATTERNS :: "regex_item list list" where
  "CRITICAL_SEVERITY_PATTERNS =
    [[AnyStar, Lit ''Delete'', AnyStar, Lit ''Trail'', AnyStar],
     [AnyStar, Lit ''Stop'', AnyStar, Lit ''Logging'', AnyStar],
     [AnyStar, Lit ''Disable'', AnyStar],
     [AnyStar, Lit ''Root'', AnyStar]]"

fun critical_pattern_loop :: "regex_item list list \<Rightarrow> string \<Rightarrow> EventSeverity option" where
  \<comment> \<open>the \<^verbatim>\<open>for pattern in CRITICAL_SEVERITY_PATTERNS\<close> loop; \<open>Some\<close>: it returned\<close>
  "critical_pattern_loop [] event_name = None"
| "critical_pattern_loop (pattern # patterns) event_name =
     (if re_match pattern event_name then Some CRITICAL
      else critical_pattern_loop patterns event_name)"

definition determine_severity :: "string \<Rightarrow> string option \<Rightarrow> string option \<Rightarrow> EventSeverity" where
  "determine_severity event_name error_code user_type =
     (if user_type = Some ''Root'' then CRITICAL
      else case critical_pattern_loop CRITICAL_SEVERITY_PATTERNS event_name of
        Some sev \<Rightarrow> sev
      | None \<Rightarrow>
         if error_code \<in> set [Some ''AccessDenied'', Some ''UnauthorizedAccess'',
                               Some ''InvalidClientTokenId'']
           then HIGH
         else if event_name \<in> set HIGH_SEVERITY_EVENTS then HIGH
         else if prefix ''List'' event_name \<or> prefix ''Describe'' event_name then LOW
         else if prefix ''Get'' event_name then LOW
         else INFO)"

definition categorize_event :: "string \<Rightarrow> string \<Rightarrow> string" where
  "categorize_event event_name event_source =
     (if event_name \<in> set [''ConsoleLogin'', ''GetFederationToken'', ''GetSessionToken'',
                             ''AssumeRole'', ''AssumeRoleWithSAML'', ''AssumeRoleWithWebIdentity'']
        then ''authentication''
      else if event_source = ''iam.amazonaws.com''
              \<or> (list_ex (\<lambda>p. prefix p event_name)
                     [''Create'', ''Delete'', ''Update'', ''Attach'', ''Detach'', ''Put'']
                   \<and> sublist ''User'' event_name)
              \<or> sublist ''Role'' event_name
              \<or> sublist ''Policy'' event_name
        then ''identity_management''
      else if event_source \<in> set [''ec2.amazonaws.com'']
              \<and> list_ex (\<lambda>x. sublist x event_name)
                    [''SecurityGroup'', ''Vpc'', ''Subnet'', ''Route'', ''NetworkAcl'']
        then ''network_security''
      else if event_source = ''s3.amazonaws.com''
              \<or> event_name \<in> set [''GetObject'', ''PutObject'', ''DeleteObject'']
        then ''data_access''
      else if event_source \<in> set [''cloudtrail.amazonaws.com'', ''logs.amazonaws.com'']
        then ''logging''
      else if list_ex (\<lambda>p. prefix p event_name)
                [''Create'', ''Delete'', ''Modify'', ''Update'', ''Terminate'']
        then ''resource_modification''
      else if list_ex (\<lambda>p. prefix p event_name) [''List'', ''Describe'', ''Get'']
        then ''discovery''
      else ''other'')"

text \<open>
  The raw CloudTrail record: the keys \<^verbatim>\<open>normalize_cloudtrail_event\<close> reads, each optional.
  The keys by which the normalizer classifies the record have the types of the CloudTrail
  schema.  The four values that the normalizer passes on unread to the constructors of the
  pydantic models (\<^verbatim>\<open>awsRegion\<close>, \<^verbatim>\<open>sourceIPAddress\<close>, \<^verbatim>\<open>userAgent\<close>, \<^verbatim>\<open>eventID\<close>) have the
  type \<open>'v\<close>: \<open>string\<close> in a record that follows the schema, \<open>json\<close> in an arbitrary mapping.
\<close>

record session_issuer =
  si_userName :: "string option"

record session_context =
  sessionIssuer :: "session_issuer option"

record user_identity =
  ui_type :: "string option"
  ui_principalId :: "string option"
  ui_arn :: "string option"
  ui_accountId :: "string option"
  ui_accessKeyId :: "string option"
  ui_userName :: "string option"
  ui_sessionContext :: "session_context option"

record cloudtrail_resource =
  res_ARN :: "string option"
  res_type :: "string option"

record 'v cloudtrail_event =
  eventName :: "string option"
  eventSource :: "string option"
  eventTime :: "string option"
  userIdentity :: "user_identity option"
  awsRegion :: "'v option"
  sourceIPAddress :: "'v option"
  userAgent :: "'v option"
  errorCode :: "string option"
  errorMessage :: "string option"
  eventID :: "'v option"
  resources :: "cloudtrail_resource list option"

definition empty_user_identity :: user_identity where
  \<comment> \<open>the default \<^verbatim>\<open>{}\<close> of \<^verbatim>\<open>raw_event.get("userIdentity", {})\<close>\<close>
  "empty_user_identity = \<lparr>ui_type = None, ui_principalId = None, ui_arn = None,
     ui_accountId = None, ui_accessKeyId = None, ui_userName = None, ui_sessionContext = None\<rparr>"

definition session_issuer_userName :: "user_identity \<Rightarrow> string option" where
  \<comment> \<open>\<^verbatim>\<open>user_identity.get("sessionContext", {}).get("sessionIssuer", {}).get("userName")\<close>\<close>
  "session_issuer_userName ui =
     (case ui_sessionContext ui of None \<Rightarrow> None
      | Some sc \<Rightarrow> (case sessionIssuer sc of None \<Rightarrow> None | Some si \<Rightarrow> si_userName si))"

definition parse_event_time :: "'t py_env \<Rightarrow> string \<Rightarrow> 't" where
  \<comment> \<open>the \<^verbatim>\<open>try: ... fromisoformat(...) except: ... utcnow()\<close> block\<close>
  "parse_event_time env event_time_str =
     (case fromisoformat env (replace_char CHR ''Z'' ''+00:00'' event_time_str) of
        Some t \<Rightarrow> t
      | None \<Rightarrow> utcnow_except env)"

text \<open>
  \<open>normalize_cloudtrail_event\<close> on a record that follows the schema; on such a record no
  constructor raises.  \<open>normalize_cloudtrail_mapping\<close> below is the same function on an
  arbitrary mapping.
\<close>

definition normalize_cloudtrail_event ::
    "'t py_env \<Rightarrow> string cloudtrail_event \<Rightarrow> ('t, string cloudtrail_event) SecurityEvent" where
  "normalize_cloudtrail_event env raw_event =
     (let event_name = get_default (eventName raw_event) ''Unknown'';
          event_source = get_default (eventSource raw_event) ''unknown'';
          event_time_str = get_default (eventTime raw_event) (isoformat env (utcnow_default env));
          event_time = parse_event_time env event_time_str;
          user_identity = get_default (userIdentity raw_event) empty_user_identity;
          user_type = ui_type user_identity;
          actor = \<lparr>principal_id = ui_principalId user_identity,
                    principal_type = user_type,
                    arn = ui_arn user_identity,
                    access_key_id = ui_accessKeyId user_identity,
                    user_name = ui_userName user_identity,
                    session_name = session_issuer_userName user_identity\<rparr>;
          network = NetworkInfo_default\<lparr>ni_source_ip := sourceIPAddress raw_event,
                                          ni_user_agent := userAgent raw_event\<rparr>;
          aws_context = \<lparr>account_id = ui_accountId user_identity,
                          region = awsRegion raw_event,
                          service = (if event_source \<noteq> [] then Some (split_first CHR ''.'' event_source)
                                     else None),
                          resource_arn = None,
                          resource_type = None\<rparr>;
          aws_context = (case get_default (resources raw_event) [] of
                           [] \<Rightarrow> aws_context
                         | r # _ \<Rightarrow> aws_context\<lparr>resource_arn := res_ARN r,
                                                  resource_type := res_type r\<rparr>);
          error_code = errorCode raw_event;
          sev = determine_severity event_name error_code user_type;
          mitre_attack = map_of MITRE_MAPPINGS event_name;
          title = ''CloudTrail: '' @ event_name
                  @ (if truthy_str error_code then '' ('' @ get_default error_code [] @ '')'' else []);
          description = ''AWS '' @ event_name @ '' event from '' @ event_source
                  @ (if truthy_str (user_name actor)
                       then '' by user '' @ get_default (user_name actor) []
                     else if truthy_str (arn actor) then '' by '' @ get_default (arn actor) []
                     else [])
                  @ (if truthy_str error_code
                       then ''. Error: '' @ get_default error_code [] @ '' - ''
                            @ get_default (errorMessage raw_event) []
                     else []);
          category = categorize_event event_name event_source;
          tags = [''cloudtrail'',
                  if event_source \<noteq> [] then split_first CHR ''.'' event_source else ''aws'']
                 @ (if truthy_str error_code
                      then [''error'', py_lower (get_default error_code [])] else [])
                 @ (if user_type = Some ''Root'' then [''root-account''] else [])
                 @ (case mitre_attack of None \<Rightarrow> []
                    | Some m \<Rightarrow> [''mitre-'' @ get_default (mi_technique_id m) ''None''])
      in \<lparr>se_event_id = uuid4 env,
          se_source = CLOUDTRAIL,
          se_source_event_id = eventID raw_event,
          se_event_time = event_time,
          se_ingested_at = utcnow_ingested env,
          se_processed_at = None,
          se_event_type = event_name,
          se_event_category = category,
          se_severity = sev,
          se_status = NEW,
          se_title = title,
          se_description = Some description,
          se_aws_context = Some aws_context,
          se_actor = Some actor,
          se_network = Some network,
          se_mitre_attack = mitre_attack,
          se_correlation_id = None,
          se_related_event_ids = [],
          se_raw_event = Some raw_event,
          se_tags = tags\<rparr>)"

text \<open>
  \<^verbatim>\<open>normalize_cloudtrail_event\<close> on an arbitrary mapping.  \<^verbatim>\<open>NetworkInfo(source_ip=..., user_agent=...)\<close>,
  \<^verbatim>\<open>AWSContext(region=...)\<close> and \<^verbatim>\<open>SecurityEvent(source_event_id=...)\<close> validate the four
  values they are handed; when all four are accepted the event is the one computed above,
  with the mapping itself as \<open>raw_event\<close>.
\<close>

definition schema_record ::
    "json cloudtrail_event \<Rightarrow> string option \<Rightarrow> string option \<Rightarrow> string option \<Rightarrow> string option
       \<Rightarrow> string cloudtrail_event" where
  \<comment> \<open>the mapping with the four validated values in place\<close>
  "schema_record raw_event source_ip user_agent aws_region source_event_id =
     \<lparr>eventName = eventName raw_event, eventSource = eventSource raw_event,
      eventTime = eventTime raw_event, userIdentity = userIdentity raw_event,
      awsRegion = aws_region, sourceIPAddress = source_ip, userAgent = user_agent,
      errorCode = errorCode raw_event, errorMessage = errorMessage raw_event,
      eventID = source_event_id, resources = resources raw_event\<rparr>"

definition with_raw_event :: "'r \<Rightarrow> ('t, 'q) SecurityEvent \<Rightarrow> ('t, 'r) SecurityEvent" where
  "with_raw_event raw ev =
     \<lparr>se_event_id = se_event_id ev, se_source = se_source ev,
      se_source_event_id = se_source_event_id ev, se_event_time = se_event_time ev,
      se_ingested_at = se_ingested_at ev, se_processed_at = se_processed_at ev,
      se_event_type = se_event_type ev, se_event_category = se_event_category ev,
      se_severity = se_severity ev, se_status = se_status ev, se_title = se_title ev,
      se_description = se_description ev, se_aws_context = se_aws_context ev,
      se_actor = se_actor ev, se_network = se_network ev,
      se_mitre_attack = se_mitre_attack ev, se_correlation_id = se_correlation_id ev,
      se_related_event_ids = se_related_event_ids ev, se_raw_event = Some raw,
      se_tags = se_tags ev\<rparr>"

definition normalize_cloudtrail_mapping ::
    "'t py_env \<Rightarrow> json cloudtrail_event \<Rightarrow> py_error + ('t, json cloudtrail_event) SecurityEvent" where
  "normalize_cloudtrail_mapping env raw_event =
     (case pydantic_optional_str (sourceIPAddress raw_event) of
        Inl e \<Rightarrow> Inl e
      | Inr source_ip \<Rightarrow>
     (case pydantic_optional_str (userAgent raw_event) of
        Inl e \<Rightarrow> Inl e
      | Inr user_agent \<Rightarrow>
     (case pydantic_optional_str (awsRegion raw_event) of
        Inl e \<Rightarrow> Inl e
      | Inr aws_region \<Rightarrow>
     (case pydantic_optional_str (eventID raw_event) of
        Inl e \<Rightarrow> Inl e
      | Inr source_event_id \<Rightarrow>
          Inr (with_raw_event raw_event
                 (normalize_cloudtrail_event env
                    (schema_record raw_event source_ip user_agent aws_region
                       source_event_id)))))))"

section \<open>The GuardDuty normalizer: the network sub-record (normalizers/guardduty.py)\<close>

text \<open>
  The field \<^verbatim>\<open>network\<close> of the event that \<^verbatim>\<open>normalize_guardduty_finding\<close> returns is
  computed from \<^verbatim>\<open>raw_finding["Service"]["Action"]\<close> alone (the block that starts at
  \<^verbatim>\<open># Extract network info from service details\<close>).  The two action mappings are tested
  for Python truth, so each record also says which further keys the mapping holds.
\<close>

record remote_ip_details =
  IpAddressV4 :: "string option"

record port_details =
  Port :: "int option"

record network_connection_action =
  nca_RemoteIpDetails :: "remote_ip_details option"
  nca_LocalPortDetails :: "port_details option"
  nca_RemotePortDetails :: "port_details option"
  nca_Protocol :: "string option"
  nca_other_keys :: "string list"

record aws_api_call_action =
  api_RemoteIpDetails :: "remote_ip_details option"
  api_UserAgent :: "string option"
  api_other_keys :: "string list"

record service_action =
  NetworkConnectionAction :: "network_connection_action option"
  AwsApiCallAction :: "aws_api_call_action option"

record guardduty_service =
  Action :: "service_action option"

record guardduty_finding =
  Service :: "guardduty_service option"

definition truthy_nca :: "network_connection_action option \<Rightarrow> bool" where
  \<comment> \<open>\<^verbatim>\<open>if network_info:\<close> the key is present and its mapping is not empty\<close>
  "truthy_nca v = (case v of None \<Rightarrow> False
     | Some d \<Rightarrow> nca_RemoteIpDetails d \<noteq> None \<or> nca_LocalPortDetails d \<noteq> None
                \<or> nca_RemotePortDetails d \<noteq> None \<or> nca_Protocol d \<noteq> None
                \<or> nca_other_keys d \<noteq> [])"

definition truthy_api :: "aws_api_call_action option \<Rightarrow> bool" where
  \<comment> \<open>\<^verbatim>\<open>if api_call:\<close>\<close>
  "truthy_api v = (case v of None \<Rightarrow> False
     | Some d \<Rightarrow> api_RemoteIpDetails d \<noteq> None \<or> api_UserAgent d \<noteq> None \<or> api_other_keys d \<noteq> [])"

definition ip_address_v4 :: "remote_ip_details option \<Rightarrow> string option" where
  \<comment> \<open>\<^verbatim>\<open>d.get("RemoteIpDetails", {}).get("IpAddressV4")\<close>\<close>
  "ip_address_v4 v = (case v of None \<Rightarrow> None | Some d \<Rightarrow> IpAddressV4 d)"

definition port_of :: "port_details option \<Rightarrow> int option" where
  "port_of v = (case v of None \<Rightarrow> None | Some d \<Rightarrow> Port d)"

definition finding_action :: "guardduty_finding \<Rightarrow> service_action" where
  \<comment> \<open>\<^verbatim>\<open>raw_finding.get("Service", {}).get("Action", {})\<close>\<close>
  "finding_action raw_finding =
     (case Service raw_finding of
        None \<Rightarrow> \<lparr>NetworkConnectionAction = None, AwsApiCallAction = None\<rparr>
      | Some srv \<Rightarrow> get_default (Action srv)
                     \<lparr>NetworkConnectionAction = None, AwsApiCallAction = None\<rparr>)"

definition guardduty_network :: "guardduty_finding \<Rightarrow> NetworkInfo option" where
  "guardduty_network raw_finding =
     (let action = finding_action raw_finding;
          network = None;
          network_info = NetworkConnectionAction action;
          network =
            (if truthy_nca network_info then
               (case network_info of None \<Rightarrow> network
                | Some ni \<Rightarrow>
                    Some (NetworkInfo_default
                      \<lparr>ni_source_ip := ip_address_v4 (nca_RemoteIpDetails ni),
                       ni_source_port := port_of (nca_RemotePortDetails ni),
                       ni_destination_port := port_of (nca_LocalPortDetails ni),
                       ni_protocol := nca_Protocol ni\<rparr>))
             else network);
          api_call = AwsApiCallAction action;
          network =
            (if truthy_api api_call then
               (case api_call of None \<Rightarrow> network
                | Some ac \<Rightarrow>
                    (let network = (case network of None \<Rightarrow> NetworkInfo_default | Some n \<Rightarrow> n)
                     in Some (network\<lparr>ni_source_ip := ip_address_v4 (api_RemoteIpDetails ac),
                                       ni_user_agent := api_UserAgent ac\<rparr>)))
             else network)
      in network)"

section \<open>The stored event, as the processor reads it\<close>

record network_dict =
  net_source_ip :: "string option"

record actor_dict =
  actor_user_name :: "string option"
  actor_arn :: "string option"

record mitre_dict =
  mitre_tactic :: "string option"
  mitre_technique_id :: "string option"
  mitre_technique_name :: "string option"

text \<open>
  The keys of an event dictionary that the correlator, the risk scorer and the alerting
  decision read.  \<open>source_ip\<close> is the top-level key of that name, which
  \<^verbatim>\<open>generate_correlation_id\<close> reads; the normalizers store the address under
  \<open>network\<close> only.  \<open>event_time\<close> is the ISO-8601 string of the store.
\<close>

record event =
  event_id :: "string option"
  event_type :: "string option"
  event_time :: "string option"
  severity :: "string option"
  source_ip :: "string option"
  network :: "network_dict option"
  actor :: "actor_dict option"
  tags :: "string list option"
  mitre_attack :: "mitre_dict option"

text \<open>
  A correlation record.  The key \<^verbatim>\<open>event_types\<close> of the source (a
  \<^verbatim>\<open>list(set(...))\<close>, whose order Python does not fix) is left out.
\<close>

record correlation =
  c_rule :: string
  c_description :: string
  c_source_ip :: "string option"
  c_actor :: "string option"
  c_sequence :: "string option list option"
  c_event_count :: nat
  c_event_ids :: "string option list"
  c_severity :: string
  c_correlation_id :: string

definition truthy_mitre :: "mitre_dict option \<Rightarrow> bool" where
  \<comment> \<open>Python truth of \<^verbatim>\<open>event.get("mitre_attack")\<close>: present and not the empty dictionary\<close>
  "truthy_mitre m = (case m of None \<Rightarrow> False
     | Some d \<Rightarrow> mitre_tactic d \<noteq> None \<or> mitre_technique_id d \<noteq> None \<or> mitre_technique_name d \<noteq> None)"

section \<open>The correlator (correlators/correlator.py)\<close>

text \<open>
  The entries of \<^verbatim>\<open>CORRELATION_RULES\<close> that the four evaluators read.  A key that a rule
  does not have is \<open>[]\<close> or \<open>0\<close> here; no evaluator reads it.
\<close>

record correlation_rule =
  r_description :: string
  r_event_types :: "string list"
  r_event_type_prefixes :: "string list"
  r_min_events :: nat
  r_severity_boost :: EventSeverity

definition rule_brute_force :: correlation_rule where
  "rule_brute_force = \<lparr>r_description = ''Multiple failed authentication attempts'',
     r_event_types = [''ConsoleLogin''], r_event_type_prefixes = [], r_min_events = 5,
     r_severity_boost = HIGH\<rparr>"

definition rule_privilege_escalation :: correlation_rule where
  "rule_privilege_escalation = \<lparr>r_description = ''IAM modifications following authentication'',
     r_event_types = [], r_event_type_prefixes = [], r_min_events = 0,
     r_severity_boost = CRITICAL\<rparr>"

definition rule_logging_tampering :: correlation_rule where
  "rule_logging_tampering = \<lparr>r_description = ''CloudTrail logging modifications'',
     r_event_types = [''StopLogging'', ''DeleteTrail'', ''UpdateTrail''],
     r_event_type_prefixes = [], r_min_events = 0, r_severity_boost = CRITICAL\<rparr>"

definition rule_reconnaissance :: correlation_rule where
  "rule_reconnaissance = \<lparr>r_description = ''Multiple discovery API calls'',
     r_event_types = [], r_event_type_prefixes = [''List'', ''Describe'', ''Get''],
     r_min_events = 20, r_severity_boost = MEDIUM\<rparr>"

definition generate_correlation_id :: "event list \<Rightarrow> string \<Rightarrow> string" where
  "generate_correlation_id events rule_name =
     (let first_type = (case events of [] \<Rightarrow> [] | first_event # _ \<Rightarrow> get_default (event_type first_event) []);
          first_ip = (case events of [] \<Rightarrow> [] | first_event # _ \<Rightarrow> get_default (source_ip first_event) []);
          hash_input = rule_name @ '':'' @ first_type @ '':'' @ first_ip
      in take 16 (sha256_hexdigest (encode hash_input)))"

text \<open>
  A dictionary of lists that is filled in a loop
  (\<^verbatim>\<open>if k not in d: d[k] = []\<close>, \<^verbatim>\<open>d[k].append(v)\<close>) and then iterated: an association list
  in the order in which the keys were first inserted.
\<close>

fun group_insert :: "'k \<Rightarrow> 'v \<Rightarrow> ('k \<times> 'v list) list \<Rightarrow> ('k \<times> 'v list) list" where
  "group_insert k v [] = [(k, [v])]"
| "group_insert k v ((k', vs) # d) =
     (if k = k' then (k', vs @ [v]) # d else (k', vs) # group_insert k v d)"

definition group_by :: "('v \<Rightarrow> 'k) \<Rightarrow> 'v list \<Rightarrow> ('k \<times> 'v list) list" where
  "group_by key xs = fold (\<lambda>x d. group_insert (key x) x d) xs []"

definition has_event_type :: "string list \<Rightarrow> event \<Rightarrow> bool" where
  \<comment> \<open>\<^verbatim>\<open>e.get("event_type") in types\<close>\<close>
  "has_event_type types e = (case event_type e of None \<Rightarrow> False | Some t \<Rightarrow> t \<in> set types)"

definition network_source_ip :: "event \<Rightarrow> string" where
  \<comment> \<open>\<^verbatim>\<open>event.get("network", {}).get("source_ip", "unknown")\<close>\<close>
  "network_source_ip e =
     (case network e of None \<Rightarrow> ''unknown'' | Some n \<Rightarrow> get_default (net_source_ip n) ''unknown'')"

definition is_failed :: "event \<Rightarrow> bool" where
  "is_failed e = list_ex (\<lambda>tag. tag \<in> set (get_default (tags e) []))
                   [''accessdenied'', ''unauthorizedaccess'', ''error'']"

fun brute_force_loop :: "(string \<times> event list) list \<Rightarrow> correlation option" where
  "brute_force_loop [] = None"
| "brute_force_loop ((ip, ip_events) # rest) =
     (let failed_events = filter is_failed ip_events in
      if length failed_events \<ge> r_min_events rule_brute_force then
        Some \<lparr>c_rule = ''brute_force'',
              c_description = r_description rule_brute_force,
              c_source_ip = Some ip,
              c_actor = None,
              c_sequence = None,
              c_event_count = length failed_events,
              c_event_ids = map event_id failed_events,
              c_severity = severity_value (r_severity_boost rule_brute_force),
              c_correlation_id = generate_correlation_id failed_events ''brute_force''\<rparr>
      else brute_force_loop rest)"

definition check_brute_force :: "event list \<Rightarrow> correlation option" where
  "check_brute_force events =
     (let login_events = filter (has_event_type (r_event_types rule_brute_force)) events in
      if length login_events < r_min_events rule_brute_force then None
      else brute_force_loop (group_by network_source_ip login_events))"

definition actor_id_of :: "event \<Rightarrow> string" where
  \<comment> \<open>\<^verbatim>\<open>actor.get("user_name") or actor.get("arn") or "unknown"\<close>\<close>
  "actor_id_of e =
     (case actor e of None \<Rightarrow> ''unknown''
      | Some a \<Rightarrow> py_or (actor_user_name a) (py_or (actor_arn a) ''unknown''))"

definition time_key :: "event \<Rightarrow> string" where
  \<comment> \<open>the sort key \<^verbatim>\<open>lambda e: e.get("event_time", "")\<close>\<close>
  "time_key e = get_default (event_time e) []"

definition iam_change_types :: "string list" where
  "iam_change_types = [''CreateAccessKey'', ''CreateUser'', ''AttachUserPolicy'', ''AttachRolePolicy'']"

fun scan_step :: "event \<Rightarrow> event option \<times> event list \<Rightarrow> event option \<times> event list" where
  \<comment> \<open>one turn of \<^verbatim>\<open>for event in sorted_events\<close>; the state is \<open>(login_event, iam_events)\<close>\<close>
  "scan_step ev (login_event, iam_events) =
     (let ev_type = get_default (event_type ev) [] in
      if ev_type = ''ConsoleLogin'' \<and> ''error'' \<notin> set (get_default (tags ev) [])
        then (Some ev, iam_events)
      else if login_event \<noteq> None \<and> ev_type \<in> set iam_change_types
        then (login_event, iam_events @ [ev])
      else (login_event, iam_events))"

fun privilege_escalation_loop :: "(string \<times> event list) list \<Rightarrow> correlation option" where
  "privilege_escalation_loop [] = None"
| "privilege_escalation_loop ((actor_id, actor_events) # rest) =
     (let sorted_events = sort_key time_key actor_events;
          state = fold scan_step sorted_events (None, [])
      in case state of
           (Some login_event, e # es) \<Rightarrow>
             (let all_events = login_event # e # es in
              Some \<lparr>c_rule = ''privilege_escalation'',
                    c_description = r_description rule_privilege_escalation,
                    c_source_ip = None,
                    c_actor = Some actor_id,
                    c_sequence = Some (map event_type all_events),
                    c_event_count = length all_events,
                    c_event_ids = map event_id all_events,
                    c_severity = severity_value (r_severity_boost rule_privilege_escalation),
                    c_correlation_id = generate_correlation_id all_events ''privilege_escalation''\<rparr>)
         | _ \<Rightarrow> privilege_escalation_loop rest)"

definition check_privilege_escalation :: "event list \<Rightarrow> correlation option" where
  "check_privilege_escalation events = privilege_escalation_loop (group_by actor_id_of events)"

definition check_logging_tampering :: "event list \<Rightarrow> correlation option" where
  "check_logging_tampering events =
     (let tampering_events = filter (has_event_type (r_event_types rule_logging_tampering)) events in
      if tampering_events \<noteq> [] then
        Some \<lparr>c_rule = ''logging_tampering'',
              c_description = r_description rule_logging_tampering,
              c_source_ip = None,
              c_actor = None,
              c_sequence = None,
              c_event_count = length tampering_events,
              c_event_ids = map event_id tampering_events,
              c_severity = severity_value (r_severity_boost rule_logging_tampering),
              c_correlation_id = generate_correlation_id tampering_events ''logging_tampering''\<rparr>
      else None)"

definition is_recon :: "event \<Rightarrow> bool" where
  "is_recon e = list_ex (\<lambda>p. prefix p (get_default (event_type e) []))
                  (r_event_type_prefixes rule_reconnaissance)"

fun reconnaissance_loop :: "(string \<times> event list) list \<Rightarrow> correlation option" where
  "reconnaissance_loop [] = None"
| "reconnaissance_loop ((ip, ip_events) # rest) =
     (if length ip_events \<ge> r_min_events rule_reconnaissance then
        Some \<lparr>c_rule = ''reconnaissance'',
              c_description = r_description rule_reconnaissance,
              c_source_ip = Some ip,
              c_actor = None,
              c_sequence = None,
              c_event_count = length ip_events,
              c_event_ids = map event_id (take 20 ip_events),
              c_severity = severity_value (r_severity_boost rule_reconnaissance),
              c_correlation_id = generate_correlation_id ip_events ''reconnaissance''\<rparr>
      else reconnaissance_loop rest)"

definition check_reconnaissance :: "event list \<Rightarrow> correlation option" where
  "check_reconnaissance events =
     (let recon_events = filter is_recon events in
      if length recon_events < r_min_events rule_reconnaissance then None
      else reconnaissance_loop (group_by network_source_ip recon_events))"

fun run_checks :: "(event list \<Rightarrow> correlation option) list \<Rightarrow> event list \<Rightarrow> correlation list" where
  \<comment> \<open>\<^verbatim>\<open>for check in checks: result = check(events); if result: correlations.append(result)\<close>\<close>
  "run_checks [] events = []"
| "run_checks (check # checks) events =
     (case check events of None \<Rightarrow> run_checks checks events
      | Some result \<Rightarrow> result # run_checks checks events)"

definition correlate_events :: "event list \<Rightarrow> correlation list" where
  "correlate_events events =
     run_checks [check_brute_force, check_privilege_escalation, check_logging_tampering,
                 check_reconnaissance] events"

section \<open>Risk score (correlator.py)\<close>

definition severity_scores :: "(string \<times> int) list" where
  "severity_scores =
     [(''critical'', 80), (''high'', 60), (''medium'', 40), (''low'', 20), (''info'', 10)]"

definition calculate_risk_score :: "event \<Rightarrow> correlation list \<Rightarrow> int" where
  "calculate_risk_score ev correlations =
     (let score = dict_get severity_scores (get_default (severity ev) ''info'') 10;
          eid = get_default (event_id ev) [];
          score = fold (\<lambda>c s. if Some eid \<in> set (c_event_ids c) then s + 20 else s)
                    correlations score;
          score = (if truthy_mitre (mitre_attack ev) then score + 10 else score);
          score = (if ''root-account'' \<in> set (get_default (tags ev) []) then score + 30 else score)
      in min score 100)"

section \<open>Alerting decision (alerting/alerts.py)\<close>

record alert_config =
  ALERT_THRESHOLD_SEVERITY :: string
  ALERT_THRESHOLD_RISK_SCORE :: int

definition default_config :: alert_config where
  \<comment> \<open>the defaults of the two \<^verbatim>\<open>os.environ.get\<close> calls\<close>
  "default_config = \<lparr>ALERT_THRESHOLD_SEVERITY = ''high'', ALERT_THRESHOLD_RISK_SCORE = 70\<rparr>"

definition should_alert :: "alert_config \<Rightarrow> event \<Rightarrow> int \<Rightarrow> bool" where
  "should_alert cfg ev risk_score =
     (let sev = get_default (severity ev) ''info'' in
      if sev = ''critical'' then True
      else if sev = ''high''
              \<and> ALERT_THRESHOLD_SEVERITY cfg \<in> set [''high'', ''medium'', ''low'', ''info'']
        then True
      else if risk_score \<ge> ALERT_THRESHOLD_RISK_SCORE cfg then True
      else False)"

section \<open>The rules as the specification words them\<close>

text \<open>
  The definitions of this section follow the sentences of the specification, not the code;
  the theorems compare them with the definitions above.
\<close>

subsection \<open>Severity (specification 4.2)\<close>

text \<open>
  A name matches \<^verbatim>\<open>.*w1.*w2.*\<close> case-insensitively when the words occur in it in this
  order, each after a stretch without a newline (the dot does not match a newline) and in
  any mixture of cases; what follows the last word is free.
\<close>

primrec occurs_in_order :: "string list \<Rightarrow> string \<Rightarrow> bool" where
  "occurs_in_order [] s = True"
| "occurs_in_order (w # ws) s =
     (\<exists>u v rest. s = u @ v @ rest \<and> newline \<notin> set u \<and> ci_equal v w \<and> occurs_in_order ws rest)"

definition spec_critical_name :: "string \<Rightarrow> bool" where
  "spec_critical_name n =
     (occurs_in_order [''Delete'', ''Trail''] n \<or> occurs_in_order [''Stop'', ''Logging''] n
      \<or> occurs_in_order [''Disable''] n \<or> occurs_in_order [''Root''] n)"

definition spec_high_severity_set :: "string set" where
  "spec_high_severity_set =
     {''ConsoleLogin'', ''CreateUser'', ''CreateAccessKey'', ''DeleteTrail'', ''StopLogging'',
      ''PutBucketPolicy'', ''PutBucketAcl'', ''AuthorizeSecurityGroupIngress'',
      ''CreateSecurityGroup'', ''ModifyInstanceAttribute'', ''RunInstances''}"

definition spec_severity :: "string \<Rightarrow> string option \<Rightarrow> string option \<Rightarrow> EventSeverity" where
  "spec_severity event_name error_code user_type =
     (if user_type = Some ''Root'' then CRITICAL
      else if spec_critical_name event_name then CRITICAL
      else if (\<exists>c \<in> {''AccessDenied'', ''UnauthorizedAccess'', ''InvalidClientTokenId''}.
                 error_code = Some c) then HIGH
      else if event_name \<in> spec_high_severity_set then HIGH
      else if prefix ''List'' event_name \<or> prefix ''Describe'' event_name
              \<or> prefix ''Get'' event_name then LOW
      else INFO)"

subsection \<open>Category (specification 4.2): the first rule that matches wins\<close>

fun first_match :: "(string \<times> (string \<Rightarrow> string \<Rightarrow> bool)) list \<Rightarrow> string \<Rightarrow> string \<Rightarrow> string" where
  "first_match [] event_name event_source = ''other''"
| "first_match ((category, matches) # rules) event_name event_source =
     (if matches event_name event_source then category
      else first_match rules event_name event_source)"

definition rule_authentication :: "string \<Rightarrow> string \<Rightarrow> bool" where
  "rule_authentication n s =
     (n \<in> {''ConsoleLogin'', ''GetFederationToken'', ''GetSessionToken'', ''AssumeRole'',
            ''AssumeRoleWithSAML'', ''AssumeRoleWithWebIdentity''})"

definition rule_network_security :: "string \<Rightarrow> string \<Rightarrow> bool" where
  "rule_network_security n s =
     (s = ''ec2.amazonaws.com''
      \<and> (\<exists>x \<in> {''SecurityGroup'', ''Vpc'', ''Subnet'', ''Route'', ''NetworkAcl''}. sublist x n))"

definition rule_data_access :: "string \<Rightarrow> string \<Rightarrow> bool" where
  "rule_data_access n s =
     (s = ''s3.amazonaws.com'' \<or> n \<in> {''GetObject'', ''PutObject'', ''DeleteObject''})"

definition rule_logging :: "string \<Rightarrow> string \<Rightarrow> bool" where
  "rule_logging n s = (s \<in> {''cloudtrail.amazonaws.com'', ''logs.amazonaws.com''})"

definition rule_resource_modification :: "string \<Rightarrow> string \<Rightarrow> bool" where
  "rule_resource_modification n s =
     (\<exists>p \<in> {''Create'', ''Delete'', ''Modify'', ''Update'', ''Terminate''}. prefix p n)"

definition rule_discovery :: "string \<Rightarrow> string \<Rightarrow> bool" where
  "rule_discovery n s = (\<exists>p \<in> {''List'', ''Describe'', ''Get''}. prefix p n)"

definition spec_rule_identity_management :: "string \<Rightarrow> string \<Rightarrow> bool" where
  \<comment> \<open>the rule as the specification lists it\<close>
  "spec_rule_identity_management n s = (s = ''iam.amazonaws.com'')"

definition code_rule_identity_management :: "string \<Rightarrow> string \<Rightarrow> bool" where
  \<comment> \<open>the rule that takes its place in the amended list\<close>
  "code_rule_identity_management n s =
     (s = ''iam.amazonaws.com''
      \<or> ((\<exists>p \<in> {''Create'', ''Delete'', ''Update'', ''Attach'', ''Detach'', ''Put''}. prefix p n)
          \<and> sublist ''User'' n)
      \<or> sublist ''Role'' n
      \<or> sublist ''Policy'' n)"

definition category_rules ::
    "(string \<Rightarrow> string \<Rightarrow> bool) \<Rightarrow> (string \<times> (string \<Rightarrow> string \<Rightarrow> bool)) list" where
  \<comment> \<open>the list of 4.2 in its order, the identity-management rule being the argument\<close>
  "category_rules identity_management =
     [(''authentication'', rule_authentication),
      (''identity_management'', identity_management),
      (''network_security'', rule_network_security),
      (''data_access'', rule_data_access),
      (''logging'', rule_logging),
      (''resource_modification'', rule_resource_modification),
      (''discovery'', rule_discovery)]"

definition spec_category :: "string \<Rightarrow> string \<Rightarrow> string" where
  "spec_category = first_match (category_rules spec_rule_identity_management)"

definition amended_category :: "string \<Rightarrow> string \<Rightarrow> string" where
  "amended_category = first_match (category_rules code_rule_identity_management)"

subsection \<open>Risk score (specification 4.5)\<close>

fun spec_base :: "EventSeverity \<Rightarrow> int" where
  "spec_base CRITICAL = 80"
| "spec_base HIGH = 60"
| "spec_base MEDIUM = 40"
| "spec_base LOW = 20"
| "spec_base INFO = 10"

definition spec_risk_score :: "EventSeverity \<Rightarrow> nat \<Rightarrow> bool \<Rightarrow> bool \<Rightarrow> int" where
  \<comment> \<open>severity, number of correlations that hold the id, technique non-null, root-account tag\<close>
  "spec_risk_score sev n technique root =
     max 0 (min 100 (spec_base sev + 20 * int n + (if technique then 10 else 0)
                     + (if root then 30 else 0)))"

subsection \<open>A value that a field of type \<^verbatim>\<open>Optional[str]\<close> accepts\<close>

fun string_or_null :: "json option \<Rightarrow> bool" where
  "string_or_null None = True"
| "string_or_null (Some JNull) = True"
| "string_or_null (Some (JStr s)) = True"
| "string_or_null (Some v) = False"

subsection \<open>Chronological order of a list of event ids (specification 3)\<close>



section \<open>Concrete inputs\<close>

text \<open>The inputs at which the theorems below are evaluated.\<close>

definition stored_event ::
    "string \<Rightarrow> string \<Rightarrow> string \<Rightarrow> string \<Rightarrow> string \<Rightarrow> string \<Rightarrow> string list \<Rightarrow> mitre_dict option \<Rightarrow> event" where
  \<comment> \<open>an event as \<^verbatim>\<open>serialize_event\<close> stores it: id, type, time, severity, user, address, tags,
      technique\<close>
  "stored_event i ty tm sev usr ip tgs m =
     \<lparr>event_id = Some i, event_type = Some ty, event_time = Some tm, severity = Some sev,
      source_ip = None, network = Some \<lparr>net_source_ip = Some ip\<rparr>,
      actor = Some \<lparr>actor_user_name = Some usr, actor_arn = None\<rparr>,
      tags = Some tgs, mitre_attack = m\<rparr>"

definition t1078 :: mitre_dict where
  "t1078 = \<lparr>mitre_tactic = Some ''Initial Access'', mitre_technique_id = Some ''T1078'',
            mitre_technique_name = Some ''Valid Accounts''\<rparr>"

definition t1136 :: mitre_dict where
  "t1136 = \<lparr>mitre_tactic = Some ''Persistence'', mitre_technique_id = Some ''T1136.003'',
            mitre_technique_name = Some ''Create Account: Cloud Account''\<rparr>"

definition t1562 :: mitre_dict where
  "t1562 = \<lparr>mitre_tactic = Some ''Defense Evasion'', mitre_technique_id = Some ''T1562.008'',
            mitre_technique_name = Some ''Impair Defenses: Disable Cloud Logs''\<rparr>"

text \<open>alice logs in, creates a user, and logs in again.\<close>

definition alice_login_1 :: event where
  "alice_login_1 = stored_event ''evt-login-1'' ''ConsoleLogin'' ''2024-05-01T10:00:00+00:00''
     ''high'' ''alice'' ''203.0.113.50'' [''cloudtrail'', ''signin'', ''mitre-T1078''] (Some t1078)"

definition alice_create_user :: event where
  "alice_create_user = stored_event ''evt-create-user'' ''CreateUser'' ''2024-05-01T10:05:00+00:00''
     ''high'' ''alice'' ''203.0.113.50'' [''cloudtrail'', ''iam'', ''mitre-T1136.003''] (Some t1136)"

definition alice_login_2 :: event where
  "alice_login_2 = stored_event ''evt-login-2'' ''ConsoleLogin'' ''2024-05-01T10:10:00+00:00''
     ''high'' ''alice'' ''203.0.113.50'' [''cloudtrail'', ''signin'', ''mitre-T1078''] (Some t1078)"

text \<open>mallory stops the logging at 10:00 and deletes the trail at 10:05.\<close>

definition stop_logging :: event where
  "stop_logging = stored_event ''evt-stop'' ''StopLogging'' ''2024-05-01T10:00:00+00:00''
     ''critical'' ''mallory'' ''198.51.100.100'' [''cloudtrail'', ''cloudtrail'', ''mitre-T1562.008'']
     (Some t1562)"

definition delete_trail :: event where
  "delete_trail = stored_event ''evt-delete'' ''DeleteTrail'' ''2024-05-01T10:05:00+00:00''
     ''critical'' ''mallory'' ''198.51.100.100'' [''cloudtrail'', ''cloudtrail'', ''mitre-T1562.008'']
     (Some t1562)"

definition tampering_record :: "string option list \<Rightarrow> string \<Rightarrow> correlation" where
  \<comment> \<open>the logging-tampering record of two events with the given ids and correlation id\<close>
  "tampering_record ids cid = \<lparr>c_rule = ''logging_tampering'',
     c_description = ''CloudTrail logging modifications'', c_source_ip = None, c_actor = None,
     c_sequence = None, c_event_count = 2, c_event_ids = ids, c_severity = ''critical'',
     c_correlation_id = cid\<rparr>"

text \<open>A root login, for the risk score.\<close>

definition root_login :: event where
  "root_login = stored_event ''evt-login-1'' ''ConsoleLogin'' ''2024-05-01T10:00:00+00:00''
     ''high'' ''root'' ''203.0.113.50'' [''cloudtrail'', ''signin'', ''root-account'', ''mitre-T1078'']
     (Some t1078)"

definition one_correlation :: correlation where
  "one_correlation = \<lparr>c_rule = ''privilege_escalation'',
     c_description = ''IAM modifications following authentication'', c_source_ip = None,
     c_actor = Some ''alice'', c_sequence = Some [Some ''ConsoleLogin'', Some ''CreateUser''],
     c_event_count = 2, c_event_ids = [Some ''evt-login-1'', Some ''evt-create-user''],
     c_severity = ''critical'', c_correlation_id = ''f766f1247f683ff4''\<rparr>"

text \<open>A finding that carries both action mappings.\<close>

definition finding_both :: guardduty_finding where
  "finding_both = \<lparr>Service = Some \<lparr>Action = Some
     \<lparr>NetworkConnectionAction = Some
        \<lparr>nca_RemoteIpDetails = Some \<lparr>IpAddressV4 = Some ''203.0.113.100''\<rparr>,
         nca_LocalPortDetails = Some \<lparr>Port = Some 22\<rparr>,
         nca_RemotePortDetails = Some \<lparr>Port = Some 8333\<rparr>,
         nca_Protocol = Some ''TCP'',
         nca_other_keys = [''ConnectionDirection'']\<rparr>,
      AwsApiCallAction = Some
        \<lparr>api_RemoteIpDetails = Some \<lparr>IpAddressV4 = Some ''198.51.100.50''\<rparr>,
         api_UserAgent = Some ''aws-sdk-python/1.0'',
         api_other_keys = [''Api'', ''ServiceName'']\<rparr>\<rparr>\<rparr>\<rparr>"

text \<open>A finding with a network connection only (the first sample of the test script).\<close>

definition finding_network_only :: guardduty_finding where
  "finding_network_only = \<lparr>Service = Some \<lparr>Action = Some
     \<lparr>NetworkConnectionAction = Some
        \<lparr>nca_RemoteIpDetails = Some \<lparr>IpAddressV4 = Some ''203.0.113.100''\<rparr>,
         nca_LocalPortDetails = None,
         nca_RemotePortDetails = Some \<lparr>Port = Some 8333\<rparr>,
         nca_Protocol = Some ''TCP'',
         nca_other_keys = []\<rparr>,
      AwsApiCallAction = None\<rparr>\<rparr>\<rparr>"

text \<open>
  A clock that reads 1000, 1001 and 1002, with a library that knows one time stamp, and
  three mappings without any of the keys the normalizer classifies by: two that it accepts,
  the second with a time string that cannot be parsed, and one whose \<^verbatim>\<open>eventID\<close> is the
  number 12345.
\<close>

definition example_env :: "nat py_env" where
  "example_env = \<lparr>utcnow_default = 1000, utcnow_except = 1001, utcnow_ingested = 1002,
     isoformat = (\<lambda>t. ''2024-05-01T10:00:00''),
     fromisoformat = (\<lambda>s. if s = ''2024-05-01T10:00:00'' then Some 1000 else None),
     uuid4 = ''7c9e6679-7425-40de-944b-e07fc1f90ae7''\<rparr>"

definition mapping_minimal :: "json cloudtrail_event" where
  "mapping_minimal = \<lparr>eventName = None, eventSource = None, eventTime = None, userIdentity = None,
     awsRegion = Some (JStr ''us-east-1''), sourceIPAddress = Some (JStr ''192.0.2.1''),
     userAgent = None, errorCode = None, errorMessage = None, eventID = Some JNull,
     resources = None\<rparr>"

definition mapping_bad_time :: "json cloudtrail_event" where
  "mapping_bad_time = mapping_minimal\<lparr>eventTime := Some ''yesterday''\<rparr>"

definition mapping_numeric_event_id :: "json cloudtrail_event" where
  "mapping_numeric_event_id = \<lparr>eventName = None, eventSource = None, eventTime = None,
     userIdentity = None, awsRegion = Some (JStr ''us-east-1''), sourceIPAddress = None,
     userAgent = None, errorCode = None, errorMessage = None, eventID = Some (JInt 12345),
     resources = None\<rparr>"

section \<open>Severity of a CloudTrail record\<close>

lemma ci_equal_length: "ci_equal v w \<Longrightarrow> length v = length w"
  unfolding ci_equal_def by (rule map_eq_imp_length_eq)

lemma re_match_Lit:
  "re_match (Lit w # ps) s \<longleftrightarrow> (\<exists>v rest. s = v @ rest \<and> ci_equal v w \<and> re_match ps rest)"
proof
  assume "re_match (Lit w # ps) s"
  then have "s = take (length w) s @ drop (length w) s \<and> ci_equal (take (length w) s) w
             \<and> re_match ps (drop (length w) s)"
    by simp
  then show "\<exists>v rest. s = v @ rest \<and> ci_equal v w \<and> re_match ps rest"
    by blast
next
  assume "\<exists>v rest. s = v @ rest \<and> ci_equal v w \<and> re_match ps rest"
  then obtain v rest where s: "s = v @ rest" and v: "ci_equal v w" and r: "re_match ps rest"
    by blast
  from v have "length v = length w" by (rule ci_equal_length)
  with s v r show "re_match (Lit w # ps) s" by simp
qed

lemma re_match_AnyStar_Lit:
  "re_match (AnyStar # Lit w # ps) s \<longleftrightarrow>
     (\<exists>u v rest. s = u @ v @ rest \<and> newline \<notin> set u \<and> ci_equal v w \<and> re_match ps rest)"
proof (induction s)
  case Nil
  show ?case by (simp add: ci_equal_def)
next
  case (Cons c cs)
  have "re_match (AnyStar # Lit w # ps) (c # cs) \<longleftrightarrow>
          re_match (Lit w # ps) (c # cs) \<or> (c \<noteq> newline \<and> re_match (AnyStar # Lit w # ps) cs)"
    by simp
  also have "\<dots> \<longleftrightarrow>
      (\<exists>v rest. c # cs = v @ rest \<and> ci_equal v w \<and> re_match ps rest)
      \<or> (c \<noteq> newline \<and> (\<exists>u v rest. cs = u @ v @ rest \<and> newline \<notin> set u \<and> ci_equal v w
                                      \<and> re_match ps rest))"
    by (simp only: re_match_Lit Cons.IH)
  also have "\<dots> \<longleftrightarrow>
      (\<exists>u v rest. c # cs = u @ v @ rest \<and> newline \<notin> set u \<and> ci_equal v w \<and> re_match ps rest)"
    (is "?L \<longleftrightarrow> ?R")
  proof
    assume ?L
    then show ?R
    proof
      assume "\<exists>v rest. c # cs = v @ rest \<and> ci_equal v w \<and> re_match ps rest"
      then obtain v rest where "c # cs = [] @ v @ rest" "ci_equal v w" "re_match ps rest"
        by auto
      then show ?R by (intro exI[of _ "[]"] exI[of _ v] exI[of _ rest]) simp
    next
      assume "c \<noteq> newline \<and> (\<exists>u v rest. cs = u @ v @ rest \<and> newline \<notin> set u \<and> ci_equal v w
                                        \<and> re_match ps rest)"
      then obtain u v rest where "c \<noteq> newline" "cs = u @ v @ rest" "newline \<notin> set u"
          "ci_equal v w" "re_match ps rest"
        by blast
      then show ?R by (intro exI[of _ "c # u"] exI[of _ v] exI[of _ rest]) simp
    qed
  next
    assume ?R
    then obtain u v rest where s: "c # cs = u @ v @ rest" and u: "newline \<notin> set u"
        and v: "ci_equal v w" and r: "re_match ps rest"
      by blast
    show ?L
    proof (cases u)
      case Nil
      with s v r show ?thesis by auto
    next
      case (Cons c' u')
      with s u have "c \<noteq> newline" "cs = u' @ v @ rest" "newline \<notin> set u'" by auto
      with v r show ?thesis by blast
    qed
  qed
  finally show ?case .
qed

lemma re_match_AnyStar_only: "re_match [AnyStar] s"
  by (induction s) simp_all

lemma re_match_one_word:
  "re_match [AnyStar, Lit a, AnyStar] s \<longleftrightarrow> occurs_in_order [a] s"
  by (simp add: re_match_AnyStar_Lit re_match_AnyStar_only)

lemma re_match_two_words:
  "re_match [AnyStar, Lit a, AnyStar, Lit b, AnyStar] s \<longleftrightarrow> occurs_in_order [a, b] s"
  by (simp add: re_match_AnyStar_Lit re_match_AnyStar_only)

lemma critical_pattern_loop_spec:
  "critical_pattern_loop CRITICAL_SEVERITY_PATTERNS n =
     (if spec_critical_name n then Some CRITICAL else None)"
  by (simp add: CRITICAL_SEVERITY_PATTERNS_def spec_critical_name_def re_match_one_word
        re_match_two_words del: occurs_in_order.simps re_match.simps)

lemma high_severity_set: "set HIGH_SEVERITY_EVENTS = spec_high_severity_set"
  by (simp add: HIGH_SEVERITY_EVENTS_def spec_high_severity_set_def)

lemma high_severity_eleven: "distinct HIGH_SEVERITY_EVENTS \<and> length HIGH_SEVERITY_EVENTS = 11"
  by (simp add: HIGH_SEVERITY_EVENTS_def)

lemma determine_severity_spec:
  "determine_severity event_name error_code user_type = spec_severity event_name error_code user_type"
  unfolding determine_severity_def spec_severity_def critical_pattern_loop_spec high_severity_set
  by auto

lemma normalize_cloudtrail_severity:
  "se_severity (normalize_cloudtrail_event env raw) =
     determine_severity (get_default (eventName raw) ''Unknown'') (errorCode raw)
       (ui_type (get_default (userIdentity raw) empty_user_identity))"
  by (simp add: normalize_cloudtrail_event_def Let_def)

text \<open>
  C5.  The severity that the CloudTrail normalizer derives is the first rule that matches,
  in this order: user type \<open>Root\<close> gives CRITICAL; a name that matches one of
  \<^verbatim>\<open>.*Delete.*Trail.*\<close>, \<^verbatim>\<open>.*Stop.*Logging.*\<close>, \<^verbatim>\<open>.*Disable.*\<close>, \<^verbatim>\<open>.*Root.*\<close> in any mixture of
  cases gives CRITICAL; an error code among AccessDenied, UnauthorizedAccess,
  InvalidClientTokenId gives HIGH; a name in the high-severity set, which has eleven
  elements, gives HIGH; a name that begins with List, Describe or Get gives LOW; every
  other record is INFO.  This holds of \<open>determine_severity\<close> and of the severity of the
  event that \<open>normalize_cloudtrail_event\<close> returns for a raw record.
\<close>

theorem cloudtrail_severity_first_match:
  "determine_severity event_name error_code user_type
     = spec_severity event_name error_code user_type
   \<and> se_severity (normalize_cloudtrail_event env raw)
     = spec_severity (get_default (eventName raw) ''Unknown'') (errorCode raw)
         (ui_type (get_default (userIdentity raw) empty_user_identity))
   \<and> set HIGH_SEVERITY_EVENTS = spec_high_severity_set
   \<and> card spec_high_severity_set = 11"
proof -
  have "card (set HIGH_SEVERITY_EVENTS) = 11"
    using high_severity_eleven by (simp add: distinct_card)
  then show ?thesis
    by (simp add: determine_severity_spec normalize_cloudtrail_severity high_severity_set)
qed

section \<open>Category of a CloudTrail record\<close>

lemma cond_authentication:
  "(n \<in> set [''ConsoleLogin'', ''GetFederationToken'', ''GetSessionToken'', ''AssumeRole'',
              ''AssumeRoleWithSAML'', ''AssumeRoleWithWebIdentity'']) = rule_authentication n s"
  by (simp add: rule_authentication_def)

lemma cond_identity_management:
  "(s = ''iam.amazonaws.com''
      \<or> (list_ex (\<lambda>p. prefix p n) [''Create'', ''Delete'', ''Update'', ''Attach'', ''Detach'', ''Put'']
          \<and> sublist ''User'' n)
      \<or> sublist ''Role'' n
      \<or> sublist ''Policy'' n) = code_rule_identity_management n s"
  by (simp add: code_rule_identity_management_def)

lemma cond_network_security:
  "(s \<in> set [''ec2.amazonaws.com'']
      \<and> list_ex (\<lambda>x. sublist x n) [''SecurityGroup'', ''Vpc'', ''Subnet'', ''Route'', ''NetworkAcl''])
     = rule_network_security n s"
  by (simp add: rule_network_security_def)

lemma cond_data_access:
  "(s = ''s3.amazonaws.com'' \<or> n \<in> set [''GetObject'', ''PutObject'', ''DeleteObject''])
     = rule_data_access n s"
  by (simp add: rule_data_access_def)

lemma cond_logging:
  "(s \<in> set [''cloudtrail.amazonaws.com'', ''logs.amazonaws.com'']) = rule_logging n s"
  by (simp add: rule_logging_def)

lemma cond_resource_modification:
  "list_ex (\<lambda>p. prefix p n) [''Create'', ''Delete'', ''Modify'', ''Update'', ''Terminate'']
     = rule_resource_modification n s"
  by (simp add: rule_resource_modification_def)

lemma cond_discovery:
  "list_ex (\<lambda>p. prefix p n) [''List'', ''Describe'', ''Get''] = rule_discovery n s"
  by (simp add: rule_discovery_def)

lemma categorize_event_amended: "categorize_event n s = amended_category n s"
  unfolding categorize_event_def amended_category_def category_rules_def first_match.simps
  by (simp only: cond_authentication [of n s] cond_identity_management [of s n]
        cond_network_security [of s n] cond_data_access [of s n] cond_logging [of s n]
        cond_resource_modification [of n s] cond_discovery [of n s])

lemma later_rules_not_identity:
  "first_match [(''network_security'', r1), (''data_access'', r2), (''logging'', r3),
                (''resource_modification'', r4), (''discovery'', r5)] n s
     \<noteq> ''identity_management''"
  by simp

lemma categorize_event_identity_iff:
  "categorize_event n s = ''identity_management''
     \<longleftrightarrow> \<not> rule_authentication n s \<and> code_rule_identity_management n s"
  unfolding categorize_event_amended amended_category_def category_rules_def
  using later_rules_not_identity [of rule_network_security rule_data_access rule_logging
          rule_resource_modification rule_discovery n s]
  by (simp del: first_match.simps add: first_match.simps(2) [of "''authentication''"]
        first_match.simps(2) [of "''identity_management''"])

lemma put_bucket_policy_facts:
  "\<not> rule_authentication ''PutBucketPolicy'' ''s3.amazonaws.com''"
  "code_rule_identity_management ''PutBucketPolicy'' ''s3.amazonaws.com''"
  "\<not> spec_rule_identity_management ''PutBucketPolicy'' ''s3.amazonaws.com''"
  "\<not> rule_network_security ''PutBucketPolicy'' ''s3.amazonaws.com''"
  "rule_data_access ''PutBucketPolicy'' ''s3.amazonaws.com''"
  by (simp_all add: rule_authentication_def code_rule_identity_management_def sublist_code
        spec_rule_identity_management_def rule_network_security_def rule_data_access_def)

text \<open>
  C2, as the specification states it, fails: the record with event source
  \<^verbatim>\<open>s3.amazonaws.com\<close> and event name \<^verbatim>\<open>PutBucketPolicy\<close> is not categorized
  \<open>data_access\<close>, which the first-match list of 4.2 would give; it is categorized
  \<open>identity_management\<close>, because the name contains \<^verbatim>\<open>Policy\<close>.
\<close>

theorem categorize_put_bucket_policy_counterexample:
  "categorize_event ''PutBucketPolicy'' ''s3.amazonaws.com'' \<noteq> ''data_access''
   \<and> categorize_event ''PutBucketPolicy'' ''s3.amazonaws.com'' = ''identity_management''
   \<and> spec_category ''PutBucketPolicy'' ''s3.amazonaws.com'' = ''data_access''"
proof -
  have a: "categorize_event ''PutBucketPolicy'' ''s3.amazonaws.com'' = ''identity_management''"
    by (simp only: categorize_event_identity_iff put_bucket_policy_facts simp_thms)
  have b: "spec_category ''PutBucketPolicy'' ''s3.amazonaws.com'' = ''data_access''"
    by (simp only: spec_category_def category_rules_def first_match.simps
          put_bucket_policy_facts if_True if_False)
  have c: "''identity_management'' \<noteq> ''data_access''" by simp
  from a b c show ?thesis by simp
qed

text \<open>
  C2, amended.  The category is assigned in the first-match order of 4.2, where the
  identity-management rule is: the event source is \<^verbatim>\<open>iam.amazonaws.com\<close>, or the event name
  begins with Create, Delete, Update, Attach, Detach or Put and contains \<^verbatim>\<open>User\<close>, or the
  event name contains \<^verbatim>\<open>Role\<close>, or it contains \<^verbatim>\<open>Policy\<close>.  So \<open>identity_management\<close> is
  assigned exactly when the authentication rule does not match and this rule does, and
  the record with source \<^verbatim>\<open>s3.amazonaws.com\<close> and name \<^verbatim>\<open>PutBucketPolicy\<close> is categorized
  \<open>identity_management\<close>.
\<close>

theorem categorize_event_first_match:
  "categorize_event event_name event_source = amended_category event_name event_source
   \<and> (categorize_event event_name event_source = ''identity_management''
        \<longleftrightarrow> \<not> rule_authentication event_name event_source
            \<and> code_rule_identity_management event_name event_source)
   \<and> categorize_event ''PutBucketPolicy'' ''s3.amazonaws.com'' = ''identity_management''"
proof -
  have "categorize_event ''PutBucketPolicy'' ''s3.amazonaws.com'' = ''identity_management''"
    by (simp only: categorize_event_identity_iff put_bucket_policy_facts simp_thms)
  then show ?thesis
    using categorize_event_amended [of event_name event_source]
      categorize_event_identity_iff [of event_name event_source]
    by (simp only: simp_thms)
qed

section \<open>Network sub-record of a GuardDuty finding\<close>

text \<open>
  C7, as the specification states it, fails: for a finding with both action mappings the
  source address of the network sub-record is the one of \<^verbatim>\<open>AwsApiCallAction\<close>
  (198.51.100.50), not the remote address of \<^verbatim>\<open>NetworkConnectionAction\<close> (203.0.113.100),
  and the user agent of \<^verbatim>\<open>AwsApiCallAction\<close> is used although
  \<^verbatim>\<open>NetworkConnectionAction\<close> is present.
\<close>

theorem guardduty_network_both_counterexample:
  "truthy_nca (NetworkConnectionAction (finding_action finding_both))
   \<and> truthy_api (AwsApiCallAction (finding_action finding_both))
   \<and> Option.bind (NetworkConnectionAction (finding_action finding_both))
        (\<lambda>d. ip_address_v4 (nca_RemoteIpDetails d)) = Some ''203.0.113.100''
   \<and> guardduty_network finding_both =
       Some \<lparr>ni_source_ip = Some ''198.51.100.50'', ni_source_port = Some 8333,
             ni_destination_ip = None, ni_destination_port = Some 22,
             ni_protocol = Some ''TCP'', ni_user_agent = Some ''aws-sdk-python/1.0''\<rparr>"
  by (simp add: guardduty_network_def finding_action_def finding_both_def truthy_nca_def
        truthy_api_def ip_address_v4_def port_of_def NetworkInfo_default_def get_default_def)

text \<open>
  C7, amended.  When \<^verbatim>\<open>NetworkConnectionAction\<close> is present (a non-empty mapping), the
  source port is its remote port, the destination port its local port and the protocol
  its protocol.  When \<^verbatim>\<open>AwsApiCallAction\<close> is present, the source address is its
  \<^verbatim>\<open>RemoteIpDetails.IpAddressV4\<close> and the user agent its \<^verbatim>\<open>UserAgent\<close>, whether or not
  \<^verbatim>\<open>NetworkConnectionAction\<close> is present too.  The remote address of
  \<^verbatim>\<open>NetworkConnectionAction\<close> is the source address only when \<^verbatim>\<open>AwsApiCallAction\<close> is
  absent, and without either mapping the event has no network sub-record.
\<close>

theorem guardduty_network_priority:
  "guardduty_network raw_finding =
     (let nca = NetworkConnectionAction (finding_action raw_finding);
          api = AwsApiCallAction (finding_action raw_finding);
          api_ip = Option.bind api (\<lambda>d. ip_address_v4 (api_RemoteIpDetails d));
          nca_ip = Option.bind nca (\<lambda>d. ip_address_v4 (nca_RemoteIpDetails d));
          nca_remote_port = Option.bind nca (\<lambda>d. port_of (nca_RemotePortDetails d));
          nca_local_port = Option.bind nca (\<lambda>d. port_of (nca_LocalPortDetails d))
      in if truthy_nca nca \<and> truthy_api api then
           Some \<lparr>ni_source_ip = api_ip, ni_source_port = nca_remote_port,
                 ni_destination_ip = None, ni_destination_port = nca_local_port,
                 ni_protocol = Option.bind nca nca_Protocol,
                 ni_user_agent = Option.bind api api_UserAgent\<rparr>
         else if truthy_nca nca then
           Some \<lparr>ni_source_ip = nca_ip, ni_source_port = nca_remote_port,
                 ni_destination_ip = None, ni_destination_port = nca_local_port,
                 ni_protocol = Option.bind nca nca_Protocol, ni_user_agent = None\<rparr>
         else if truthy_api api then
           Some \<lparr>ni_source_ip = api_ip, ni_source_port = None,
                 ni_destination_ip = None, ni_destination_port = None,
                 ni_protocol = None, ni_user_agent = Option.bind api api_UserAgent\<rparr>
         else None)"
  by (cases "NetworkConnectionAction (finding_action raw_finding)";
      cases "AwsApiCallAction (finding_action raw_finding)")
     (simp_all add: guardduty_network_def Let_def truthy_nca_def truthy_api_def
        NetworkInfo_default_def)

theorem guardduty_network_priority_witness:
  "guardduty_network finding_network_only =
     Some \<lparr>ni_source_ip = Some ''203.0.113.100'', ni_source_port = Some 8333,
           ni_destination_ip = None, ni_destination_port = None,
           ni_protocol = Some ''TCP'', ni_user_agent = None\<rparr>"
  using guardduty_network_priority [of finding_network_only]
  by (simp add: finding_action_def finding_network_only_def truthy_nca_def truthy_api_def
        ip_address_v4_def port_of_def get_default_def)

section \<open>The risk score as the specification composes it\<close>

lemma membership_fold_count:
  "fold (\<lambda>c s. if P c then s + (20::int) else s) cs s = s + 20 * int (length (filter P cs))"
  by (induction cs arbitrary: s) simp_all

lemma severity_base_spec:
  "dict_get severity_scores (severity_value sev) 10 = spec_base sev"
  by (cases sev) (simp_all add: dict_get_def severity_scores_def)

lemma risk_score_spec:
  assumes sev: "severity ev = Some (severity_value sev)"
    and eid: "event_id ev = Some eid"
    and tech: "mitre_attack ev = None \<or> truthy_mitre (mitre_attack ev)"
  shows "calculate_risk_score ev correlations =
           spec_risk_score sev (length (filter (\<lambda>c. Some eid \<in> set (c_event_ids c)) correlations))
             (mitre_attack ev \<noteq> None) (''root-account'' \<in> set (get_default (tags ev) []))"
proof -
  have t: "truthy_mitre (mitre_attack ev) = (mitre_attack ev \<noteq> None)"
    using tech by (cases "mitre_attack ev") (simp_all add: truthy_mitre_def)
  have b: "0 \<le> spec_base sev" by (cases sev) simp_all
  have g: "get_default (Some (severity_value sev)) ''info'' = severity_value sev"
      "get_default (Some eid) [] = eid"
    by (simp_all add: get_default_def)
  show ?thesis
    unfolding calculate_risk_score_def spec_risk_score_def Let_def sev eid t
      membership_fold_count g severity_base_spec
    using b by (auto simp: min_def max_def)
qed

text \<open>
  C6.  For an event of the store (it carries its id, its severity is one of the five
  values of the enumeration, and its technique mapping, when present, is not the empty
  mapping) and every list of correlations, the risk score is the base of the severity
  (critical 80, high 60, medium 40, low 20, info 10), plus 20 for each correlation whose
  \<open>event_ids\<close> holds the id of the event, plus 10 if the technique mapping is non-null, plus
  30 if \<open>root-account\<close> is among the tags, clamped to the interval from 0 to 100.  A high
  event with a technique, in exactly one correlation, scores 90 without the tag
  \<open>root-account\<close> and 100 with it.
\<close>

theorem risk_score_composition:
  assumes "severity ev = Some (severity_value sev)"
    and "event_id ev = Some eid"
    and "mitre_attack ev = None \<or> truthy_mitre (mitre_attack ev)"
  shows "calculate_risk_score ev correlations =
           spec_risk_score sev (length (filter (\<lambda>c. Some eid \<in> set (c_event_ids c)) correlations))
             (mitre_attack ev \<noteq> None) (''root-account'' \<in> set (get_default (tags ev) []))
         \<and> (sev = HIGH \<and> mitre_attack ev \<noteq> None
              \<and> length (filter (\<lambda>c. Some eid \<in> set (c_event_ids c)) correlations) = 1
            \<longrightarrow> calculate_risk_score ev correlations
                  = (if ''root-account'' \<in> set (get_default (tags ev) []) then 100 else 90))"
proof -
  note f = risk_score_spec [OF assms, of correlations]
  show ?thesis
    unfolding f by (simp add: spec_risk_score_def)
qed

theorem risk_score_composition_witness:
  "calculate_risk_score alice_login_1 [one_correlation] = 90
   \<and> calculate_risk_score root_login [one_correlation] = 100"
proof -
  have a: "severity alice_login_1 = Some (severity_value HIGH)"
      "event_id alice_login_1 = Some ''evt-login-1''"
      "mitre_attack alice_login_1 = None \<or> truthy_mitre (mitre_attack alice_login_1)"
    by (simp_all add: alice_login_1_def stored_event_def truthy_mitre_def t1078_def)
  have r: "severity root_login = Some (severity_value HIGH)"
      "event_id root_login = Some ''evt-login-1''"
      "mitre_attack root_login = None \<or> truthy_mitre (mitre_attack root_login)"
    by (simp_all add: root_login_def stored_event_def truthy_mitre_def t1078_def)
  have n: "length (filter (\<lambda>c. Some ''evt-login-1'' \<in> set (c_event_ids c)) [one_correlation]) = 1"
    by (simp add: one_correlation_def)
  have ta: "''root-account'' \<notin> set (get_default (tags alice_login_1) [])"
       "mitre_attack alice_login_1 \<noteq> None"
    by (simp_all add: alice_login_1_def stored_event_def get_default_def)
  have tr: "''root-account'' \<in> set (get_default (tags root_login) [])"
       "mitre_attack root_login \<noteq> None"
    by (simp_all add: root_login_def stored_event_def get_default_def)
  from risk_score_composition [OF a, of "[one_correlation]"]
       risk_score_composition [OF r, of "[one_correlation]"]
  show ?thesis
    unfolding n using ta tr by simp
qed

section \<open>The CloudTrail normalizer on a record without its optional keys\<close>

lemma unknown_is_info: "determine_severity ''Unknown'' None None = INFO"
  by (simp add: determine_severity_def CRITICAL_SEVERITY_PATTERNS_def HIGH_SEVERITY_EVENTS_def
        ci_equal_def ascii_lower_def newline_def)

lemma unknown_is_other: "categorize_event ''Unknown'' ''unknown'' = ''other''"
  by (simp add: categorize_event_def sublist_code)

lemma unknown_has_no_technique: "map_of MITRE_MAPPINGS ''Unknown'' = None"
  by (simp add: MITRE_MAPPINGS_def)

lemma normalize_cloudtrail_minimal:
  "(eventName raw = None \<and> eventSource raw = None \<and> eventTime raw = None
      \<and> userIdentity raw = None \<and> errorCode raw = None \<and> resources raw = None
    \<longrightarrow> se_event_type (normalize_cloudtrail_event env raw) = ''Unknown''
        \<and> se_severity (normalize_cloudtrail_event env raw) = INFO
        \<and> se_event_category (normalize_cloudtrail_event env raw) = ''other''
        \<and> se_status (normalize_cloudtrail_event env raw) = NEW
        \<and> se_mitre_attack (normalize_cloudtrail_event env raw) = None)
   \<and> (eventTime raw = None
        \<and> fromisoformat env (replace_char CHR ''Z'' ''+00:00'' (isoformat env (utcnow_default env)))
            = Some (utcnow_default env)
      \<longrightarrow> se_event_time (normalize_cloudtrail_event env raw) = utcnow_default env)
   \<and> (fromisoformat env (replace_char CHR ''Z'' ''+00:00''
          (get_default (eventTime raw) (isoformat env (utcnow_default env)))) = None
      \<longrightarrow> se_event_time (normalize_cloudtrail_event env raw) = utcnow_except env)"
  by (simp add: normalize_cloudtrail_event_def Let_def get_default_def parse_event_time_def
        empty_user_identity_def unknown_is_info unknown_is_other unknown_has_no_technique)

lemma pydantic_accepts: "string_or_null v \<Longrightarrow> \<exists>s. pydantic_optional_str v = Inr s"
  by (induction v rule: string_or_null.induct) simp_all

lemma pydantic_refuses: "\<not> string_or_null v \<Longrightarrow> pydantic_optional_str v = Inl ValidationError"
  by (induction v rule: string_or_null.induct) simp_all

lemma normalize_cloudtrail_mapping_accepted:
  assumes "string_or_null (awsRegion raw)" "string_or_null (sourceIPAddress raw)"
    "string_or_null (userAgent raw)" "string_or_null (eventID raw)"
  shows "\<exists>ip ua reg eid. normalize_cloudtrail_mapping env raw =
           Inr (with_raw_event raw
                  (normalize_cloudtrail_event env (schema_record raw ip ua reg eid)))"
proof -
  obtain reg where a: "pydantic_optional_str (awsRegion raw) = Inr reg"
    using pydantic_accepts [OF assms(1)] by (rule exE)
  obtain ip where b: "pydantic_optional_str (sourceIPAddress raw) = Inr ip"
    using pydantic_accepts [OF assms(2)] by (rule exE)
  obtain ua where c: "pydantic_optional_str (userAgent raw) = Inr ua"
    using pydantic_accepts [OF assms(3)] by (rule exE)
  obtain eid where d: "pydantic_optional_str (eventID raw) = Inr eid"
    using pydantic_accepts [OF assms(4)] by (rule exE)
  from a b c d have "normalize_cloudtrail_mapping env raw =
      Inr (with_raw_event raw (normalize_cloudtrail_event env (schema_record raw ip ua reg eid)))"
    by (simp add: normalize_cloudtrail_mapping_def)
  then show ?thesis by blast
qed

lemma normalize_cloudtrail_mapping_refused:
  assumes "\<not> (string_or_null (awsRegion raw) \<and> string_or_null (sourceIPAddress raw)
            \<and> string_or_null (userAgent raw) \<and> string_or_null (eventID raw))"
  shows "normalize_cloudtrail_mapping env raw = Inl ValidationError"
proof -
  from assms have "pydantic_optional_str (awsRegion raw) = Inl ValidationError
      \<or> pydantic_optional_str (sourceIPAddress raw) = Inl ValidationError
      \<or> pydantic_optional_str (userAgent raw) = Inl ValidationError
      \<or> pydantic_optional_str (eventID raw) = Inl ValidationError"
    using pydantic_refuses by blast
  moreover have "e = ValidationError" for e :: py_error by (cases e) simp
  ultimately show ?thesis
    by (auto simp: normalize_cloudtrail_mapping_def split: sum.splits)
qed

lemma normalize_cloudtrail_mapping_Inr:
  assumes "normalize_cloudtrail_mapping env raw = Inr ev"
  shows "\<exists>ip ua reg eid.
           ev = with_raw_event raw (normalize_cloudtrail_event env (schema_record raw ip ua reg eid))"
  using assms by (auto simp: normalize_cloudtrail_mapping_def split: sum.splits)

lemma schema_record_keys:
  "eventName (schema_record raw ip ua reg eid) = eventName raw"
  "eventSource (schema_record raw ip ua reg eid) = eventSource raw"
  "eventTime (schema_record raw ip ua reg eid) = eventTime raw"
  "userIdentity (schema_record raw ip ua reg eid) = userIdentity raw"
  "errorCode (schema_record raw ip ua reg eid) = errorCode raw"
  "resources (schema_record raw ip ua reg eid) = resources raw"
  by (simp_all add: schema_record_def)

lemma with_raw_event_fields:
  "se_event_type (with_raw_event raw ev) = se_event_type ev"
  "se_severity (with_raw_event raw ev) = se_severity ev"
  "se_event_category (with_raw_event raw ev) = se_event_category ev"
  "se_status (with_raw_event raw ev) = se_status ev"
  "se_mitre_attack (with_raw_event raw ev) = se_mitre_attack ev"
  "se_event_time (with_raw_event raw ev) = se_event_time ev"
  by (simp_all add: with_raw_event_def)

text \<open>
  C10, as stated, fails: the mapping \<^verbatim>\<open>{"eventID": 12345, "awsRegion": "us-east-1"}\<close>
  has none of the six keys, and the normalizer raises \<^verbatim>\<open>ValidationError\<close> on it (the
  constructor of \<^verbatim>\<open>SecurityEvent\<close> refuses the number as \<^verbatim>\<open>source_event_id\<close>).
\<close>

theorem normalize_numeric_event_id_counterexample:
  "eventName mapping_numeric_event_id = None \<and> eventSource mapping_numeric_event_id = None
   \<and> eventTime mapping_numeric_event_id = None \<and> userIdentity mapping_numeric_event_id = None
   \<and> errorCode mapping_numeric_event_id = None \<and> resources mapping_numeric_event_id = None
   \<and> normalize_cloudtrail_mapping example_env mapping_numeric_event_id = Inl ValidationError"
  by (simp add: mapping_numeric_event_id_def normalize_cloudtrail_mapping_def)

text \<open>
  C10, amended.  On a mapping without \<^verbatim>\<open>eventName\<close>, \<^verbatim>\<open>eventSource\<close>, \<^verbatim>\<open>eventTime\<close>,
  \<^verbatim>\<open>userIdentity\<close>, \<^verbatim>\<open>errorCode\<close> and \<^verbatim>\<open>resources\<close> the normalizer returns exactly when each of
  \<^verbatim>\<open>awsRegion\<close>, \<^verbatim>\<open>sourceIPAddress\<close>, \<^verbatim>\<open>userAgent\<close> and \<^verbatim>\<open>eventID\<close> is absent, null or a string,
  and otherwise raises \<^verbatim>\<open>ValidationError\<close>.  The event it returns has type \<open>Unknown\<close>,
  severity INFO, category \<open>other\<close>, status NEW and no technique mapping, and its time is the
  reading of the clock (printed with \<^verbatim>\<open>isoformat\<close> and read back).  On every mapping on which
  the normalizer returns, a time string that \<^verbatim>\<open>fromisoformat\<close> rejects is replaced by the
  reading of the clock in the exception handler.
\<close>

theorem normalize_cloudtrail_mapping_minimal:
  "(eventName raw = None \<and> eventSource raw = None \<and> eventTime raw = None
      \<and> userIdentity raw = None \<and> errorCode raw = None \<and> resources raw = None
    \<longrightarrow> (if string_or_null (awsRegion raw) \<and> string_or_null (sourceIPAddress raw)
             \<and> string_or_null (userAgent raw) \<and> string_or_null (eventID raw)
          then \<exists>ev. normalize_cloudtrail_mapping env raw = Inr ev
                 \<and> se_event_type ev = ''Unknown''
                 \<and> se_severity ev = INFO
                 \<and> se_event_category ev = ''other''
                 \<and> se_status ev = NEW
                 \<and> se_mitre_attack ev = None
                 \<and> (fromisoformat env (replace_char CHR ''Z'' ''+00:00''
                        (isoformat env (utcnow_default env))) = Some (utcnow_default env)
                      \<longrightarrow> se_event_time ev = utcnow_default env)
          else normalize_cloudtrail_mapping env raw = Inl ValidationError))
   \<and> (\<forall>ev. normalize_cloudtrail_mapping env raw = Inr ev
          \<and> fromisoformat env (replace_char CHR ''Z'' ''+00:00''
                (get_default (eventTime raw) (isoformat env (utcnow_default env)))) = None
        \<longrightarrow> se_event_time ev = utcnow_except env)"
proof (intro conjI impI allI)
  assume k: "eventName raw = None \<and> eventSource raw = None \<and> eventTime raw = None
      \<and> userIdentity raw = None \<and> errorCode raw = None \<and> resources raw = None"
  show "if string_or_null (awsRegion raw) \<and> string_or_null (sourceIPAddress raw)
             \<and> string_or_null (userAgent raw) \<and> string_or_null (eventID raw)
          then \<exists>ev. normalize_cloudtrail_mapping env raw = Inr ev
                 \<and> se_event_type ev = ''Unknown''
                 \<and> se_severity ev = INFO
                 \<and> se_event_category ev = ''other''
                 \<and> se_status ev = NEW
                 \<and> se_mitre_attack ev = None
                 \<and> (fromisoformat env (replace_char CHR ''Z'' ''+00:00''
                        (isoformat env (utcnow_default env))) = Some (utcnow_default env)
                      \<longrightarrow> se_event_time ev = utcnow_default env)
          else normalize_cloudtrail_mapping env raw = Inl ValidationError"
  proof (cases "string_or_null (awsRegion raw) \<and> string_or_null (sourceIPAddress raw)
             \<and> string_or_null (userAgent raw) \<and> string_or_null (eventID raw)")
    case True
    then obtain ip ua reg eid where r: "normalize_cloudtrail_mapping env raw =
        Inr (with_raw_event raw (normalize_cloudtrail_event env (schema_record raw ip ua reg eid)))"
      using normalize_cloudtrail_mapping_accepted [of raw env] by blast
    from k normalize_cloudtrail_minimal [of "schema_record raw ip ua reg eid" env]
    have "se_event_type (normalize_cloudtrail_event env (schema_record raw ip ua reg eid)) = ''Unknown''
        \<and> se_severity (normalize_cloudtrail_event env (schema_record raw ip ua reg eid)) = INFO
        \<and> se_event_category (normalize_cloudtrail_event env (schema_record raw ip ua reg eid)) = ''other''
        \<and> se_status (normalize_cloudtrail_event env (schema_record raw ip ua reg eid)) = NEW
        \<and> se_mitre_attack (normalize_cloudtrail_event env (schema_record raw ip ua reg eid)) = None
        \<and> (fromisoformat env (replace_char CHR ''Z'' ''+00:00''
               (isoformat env (utcnow_default env))) = Some (utcnow_default env)
             \<longrightarrow> se_event_time (normalize_cloudtrail_event env (schema_record raw ip ua reg eid))
                 = utcnow_default env)"
      by (simp add: schema_record_keys)
    with r True show ?thesis
      by (simp add: with_raw_event_fields)
  next
    case False
    then show ?thesis
      using normalize_cloudtrail_mapping_refused [of raw env] by simp
  qed
next
  fix ev
  assume a: "normalize_cloudtrail_mapping env raw = Inr ev
          \<and> fromisoformat env (replace_char CHR ''Z'' ''+00:00''
                (get_default (eventTime raw) (isoformat env (utcnow_default env)))) = None"
  then obtain ip ua reg eid where
      ev: "ev = with_raw_event raw (normalize_cloudtrail_event env (schema_record raw ip ua reg eid))"
    using normalize_cloudtrail_mapping_Inr by blast
  from a normalize_cloudtrail_minimal [of "schema_record raw ip ua reg eid" env]
  have "se_event_time (normalize_cloudtrail_event env (schema_record raw ip ua reg eid))
          = utcnow_except env"
    by (simp add: schema_record_keys)
  then show "se_event_time ev = utcnow_except env"
    by (simp add: ev with_raw_event_fields)
qed

theorem normalize_cloudtrail_mapping_minimal_witness:
  "(\<exists>ev. normalize_cloudtrail_mapping example_env mapping_minimal = Inr ev
        \<and> se_event_type ev = ''Unknown''
        \<and> se_severity ev = INFO
        \<and> se_event_category ev = ''other''
        \<and> se_status ev = NEW
        \<and> se_mitre_attack ev = None
        \<and> se_event_time ev = 1000)
   \<and> (\<exists>ev. normalize_cloudtrail_mapping example_env mapping_bad_time = Inr ev
        \<and> se_event_time ev = 1001)"
proof -
  have m: "eventName mapping_minimal = None \<and> eventSource mapping_minimal = None
      \<and> eventTime mapping_minimal = None \<and> userIdentity mapping_minimal = None
      \<and> errorCode mapping_minimal = None \<and> resources mapping_minimal = None"
    by (simp add: mapping_minimal_def)
  have v: "string_or_null (awsRegion mapping_minimal) \<and> string_or_null (sourceIPAddress mapping_minimal)
      \<and> string_or_null (userAgent mapping_minimal) \<and> string_or_null (eventID mapping_minimal)"
    by (simp add: mapping_minimal_def)
  have p: "fromisoformat example_env (replace_char CHR ''Z'' ''+00:00''
           (isoformat example_env (utcnow_default example_env)))
        = Some (utcnow_default example_env)"
    by (simp add: example_env_def replace_char_def)
  have c: "utcnow_default example_env = 1000" "utcnow_except example_env = 1001"
    by (simp_all add: example_env_def)
  from normalize_cloudtrail_mapping_minimal [of mapping_minimal example_env] m v p
  have first: "\<exists>ev. normalize_cloudtrail_mapping example_env mapping_minimal = Inr ev
        \<and> se_event_type ev = ''Unknown'' \<and> se_severity ev = INFO
        \<and> se_event_category ev = ''other'' \<and> se_status ev = NEW
        \<and> se_mitre_attack ev = None \<and> se_event_time ev = 1000"
    by (simp add: c)
  have vb: "string_or_null (awsRegion mapping_bad_time)"
      "string_or_null (sourceIPAddress mapping_bad_time)"
      "string_or_null (userAgent mapping_bad_time)" "string_or_null (eventID mapping_bad_time)"
    by (simp_all add: mapping_bad_time_def mapping_minimal_def)
  from normalize_cloudtrail_mapping_accepted [OF vb, of example_env]
  obtain ev where e: "normalize_cloudtrail_mapping example_env mapping_bad_time = Inr ev"
    by blast
  have b: "fromisoformat example_env (replace_char CHR ''Z'' ''+00:00''
          (get_default (eventTime mapping_bad_time)
             (isoformat example_env (utcnow_default example_env)))) = None"
    by (simp add: mapping_bad_time_def mapping_minimal_def example_env_def replace_char_def
          get_default_def)
  from normalize_cloudtrail_mapping_minimal [of mapping_bad_time example_env] e b
  have "se_event_time ev = 1001" by (simp add: c)
  with e have second: "\<exists>ev. normalize_cloudtrail_mapping example_env mapping_bad_time = Inr ev
        \<and> se_event_time ev = 1001"
    by blast
  from first second show ?thesis by (rule conjI)
qed

section \<open>Privilege escalation after a second login\<close>

text \<open>
  C3 at a concrete window: alice logs in at 10:00, creates a user at 10:05 and logs in
  again at 10:10.  The evaluator emits one critical record; it begins with the login
  of 10:10, and the follow-up it lists is the \<open>CreateUser\<close> of 10:05, which precedes that
  login: the list of follow-ups is not emptied when a later login replaces the tracked
  one.
\<close>

theorem privilege_escalation_second_login:
  "map_option c_event_ids
       (check_privilege_escalation [alice_login_1, alice_create_user, alice_login_2])
     = Some [Some ''evt-login-2'', Some ''evt-create-user'']
   \<and> map_option c_sequence
       (check_privilege_escalation [alice_login_1, alice_create_user, alice_login_2])
     = Some (Some [Some ''ConsoleLogin'', Some ''CreateUser''])
   \<and> map_option c_severity
       (check_privilege_escalation [alice_login_1, alice_create_user, alice_login_2])
     = Some ''critical''
   \<and> time_key alice_create_user < time_key alice_login_2"
  by (simp add: check_privilege_escalation_def group_by_def actor_id_of_def
        alice_login_1_def alice_create_user_def alice_login_2_def stored_event_def
        time_key_def get_default_def iam_change_types_def rule_privilege_escalation_def)

section \<open>The members of an emitted correlation record\<close>

lemma subseq_sorted: "subseq xs ys \<Longrightarrow> sorted ys \<Longrightarrow> sorted xs"
  by (auto simp: subseq_conv_nths sorted_nths)

lemma subseq_time_sorted:
  "subseq ms evs \<Longrightarrow> sorted (map time_key evs) \<Longrightarrow> sorted (map time_key ms)"
  using subseq_sorted subseq_map by blast

lemma subseq_set: "subseq xs ys \<Longrightarrow> set xs \<subseteq> set ys"
  by (induction rule: list_emb.induct) auto

lemma group_insert_elem:
  "(k, vs) \<in> set (group_insert k' v d) \<Longrightarrow>
     (k, vs) \<in> set d \<or> (\<exists>vs0. vs = vs0 @ [v] \<and> ((k, vs0) \<in> set d \<or> vs0 = []))"
  by (induction d) (auto split: if_splits)

lemma fold_group_insert_subseq:
  "(k, vs) \<in> set (fold (\<lambda>x d. group_insert (key x) x d) xs d) \<Longrightarrow>
     \<exists>vs0 ys. vs = vs0 @ ys \<and> ((k, vs0) \<in> set d \<or> vs0 = []) \<and> subseq ys xs"
proof (induction xs arbitrary: d)
  case Nil
  then have "vs = vs @ [] \<and> ((k, vs) \<in> set d \<or> vs = []) \<and> subseq [] ([] :: 'b list)"
    by simp
  then show ?case by blast
next
  case (Cons x xs)
  from Cons.prems have "(k, vs) \<in> set (fold (\<lambda>x d. group_insert (key x) x d) xs
                                        (group_insert (key x) x d))"
    by simp
  from Cons.IH [OF this] obtain vs1 ys where vs: "vs = vs1 @ ys"
      and vs1: "(k, vs1) \<in> set (group_insert (key x) x d) \<or> vs1 = []"
      and ys: "subseq ys xs"
    by blast
  from vs1 consider "(k, vs1) \<in> set d \<or> vs1 = []"
    | vs0 where "vs1 = vs0 @ [x]" "(k, vs0) \<in> set d \<or> vs0 = []"
    using group_insert_elem [of k vs1 "key x" x d] by blast
  then show ?case
  proof cases
    case 1
    moreover from ys have "subseq ys (x # xs)" by (rule list_emb_Cons)
    ultimately show ?thesis using vs by blast
  next
    case 2
    from ys have "subseq (x # ys) (x # xs)" by simp
    moreover from vs 2 have "vs = vs0 @ (x # ys)" by simp
    ultimately show ?thesis using 2 by blast
  qed
qed

lemma group_by_subseq: "(k, vs) \<in> set (group_by key xs) \<Longrightarrow> subseq vs xs"
  unfolding group_by_def by (drule fold_group_insert_subseq) auto

lemma brute_force_loop_Some:
  "brute_force_loop buckets = Some r \<Longrightarrow>
     \<exists>ip ip_events. (ip, ip_events) \<in> set buckets
       \<and> 5 \<le> length (filter is_failed ip_events)
       \<and> c_rule r = ''brute_force''
       \<and> c_event_ids r = map event_id (filter is_failed ip_events)
       \<and> c_correlation_id r = generate_correlation_id (filter is_failed ip_events) ''brute_force''"
proof (induction buckets rule: brute_force_loop.induct)
  case 1
  then show ?case by simp
next
  case (2 ip ip_events rest)
  show ?case
  proof (cases "5 \<le> length (filter is_failed ip_events)")
    case True
    with "2.prems" have "r = \<lparr>c_rule = ''brute_force'',
        c_description = r_description rule_brute_force, c_source_ip = Some ip, c_actor = None,
        c_sequence = None, c_event_count = length (filter is_failed ip_events),
        c_event_ids = map event_id (filter is_failed ip_events),
        c_severity = severity_value (r_severity_boost rule_brute_force),
        c_correlation_id = generate_correlation_id (filter is_failed ip_events) ''brute_force''\<rparr>"
      by (simp add: Let_def rule_brute_force_def)
    with True show ?thesis by (intro exI[of _ ip] exI[of _ ip_events]) simp
  next
    case False
    with "2.prems" have "brute_force_loop rest = Some r"
      by (simp add: Let_def rule_brute_force_def)
    with "2.IH" False obtain ip' evs' where "(ip', evs') \<in> set rest"
        "5 \<le> length (filter is_failed evs')" "c_rule r = ''brute_force''"
        "c_event_ids r = map event_id (filter is_failed evs')"
        "c_correlation_id r = generate_correlation_id (filter is_failed evs') ''brute_force''"
      by (auto simp: rule_brute_force_def)
    then show ?thesis by (intro exI[of _ ip'] exI[of _ evs']) simp
  qed
qed

lemma reconnaissance_loop_Some:
  "reconnaissance_loop buckets = Some r \<Longrightarrow>
     \<exists>ip ip_events. (ip, ip_events) \<in> set buckets
       \<and> 20 \<le> length ip_events
       \<and> c_rule r = ''reconnaissance''
       \<and> c_event_ids r = map event_id (take 20 ip_events)
       \<and> c_correlation_id r = generate_correlation_id ip_events ''reconnaissance''"
proof (induction buckets rule: reconnaissance_loop.induct)
  case 1
  then show ?case by simp
next
  case (2 ip ip_events rest)
  show ?case
  proof (cases "20 \<le> length ip_events")
    case True
    with "2.prems" have "r = \<lparr>c_rule = ''reconnaissance'',
        c_description = r_description rule_reconnaissance, c_source_ip = Some ip, c_actor = None,
        c_sequence = None, c_event_count = length ip_events,
        c_event_ids = map event_id (take 20 ip_events),
        c_severity = severity_value (r_severity_boost rule_reconnaissance),
        c_correlation_id = generate_correlation_id ip_events ''reconnaissance''\<rparr>"
      by (simp add: rule_reconnaissance_def)
    with True show ?thesis by (intro exI[of _ ip] exI[of _ ip_events]) simp
  next
    case False
    with "2.prems" have "reconnaissance_loop rest = Some r"
      by (simp add: rule_reconnaissance_def)
    with "2.IH" False obtain ip' evs' where "(ip', evs') \<in> set rest"
        "20 \<le> length evs'" "c_rule r = ''reconnaissance''"
        "c_event_ids r = map event_id (take 20 evs')"
        "c_correlation_id r = generate_correlation_id evs' ''reconnaissance''"
      by (auto simp: rule_reconnaissance_def)
    then show ?thesis by (intro exI[of _ ip'] exI[of _ evs']) simp
  qed
qed

lemma check_brute_force_members:
  assumes "check_brute_force evs = Some r"
  shows "\<exists>first rest n. subseq (first # rest) evs
           \<and> c_rule r = ''brute_force''
           \<and> c_event_ids r = map event_id (take (Suc n) (first # rest))
           \<and> c_correlation_id r = generate_correlation_id (first # rest) (c_rule r)"
proof -
  let ?logins = "filter (has_event_type (r_event_types rule_brute_force)) evs"
  from assms have "brute_force_loop (group_by network_source_ip ?logins) = Some r"
    by (simp add: check_brute_force_def Let_def split: if_splits)
  from brute_force_loop_Some [OF this] obtain ip ip_events
    where b: "(ip, ip_events) \<in> set (group_by network_source_ip ?logins)"
      and n: "5 \<le> length (filter is_failed ip_events)"
      and r: "c_rule r = ''brute_force''"
         "c_event_ids r = map event_id (filter is_failed ip_events)"
         "c_correlation_id r = generate_correlation_id (filter is_failed ip_events) ''brute_force''"
    by blast
  from n obtain first rest where ms: "filter is_failed ip_events = first # rest"
    by (cases "filter is_failed ip_events") auto
  have "subseq (filter is_failed ip_events) ip_events" by simp
  also have "subseq ip_events ?logins" using b by (rule group_by_subseq)
  also have "subseq ?logins evs" by simp
  finally have "subseq (first # rest) evs" unfolding ms .
  moreover have "take (Suc (length rest)) (first # rest) = first # rest" by simp
  ultimately show ?thesis
    using r unfolding ms by (intro exI[of _ first] exI[of _ rest] exI[of _ "length rest"]) simp
qed

lemma check_reconnaissance_members:
  assumes "check_reconnaissance evs = Some r"
  shows "\<exists>first rest n. subseq (first # rest) evs
           \<and> c_rule r = ''reconnaissance''
           \<and> c_event_ids r = map event_id (take (Suc n) (first # rest))
           \<and> c_correlation_id r = generate_correlation_id (first # rest) (c_rule r)"
proof -
  let ?recon = "filter is_recon evs"
  from assms have "reconnaissance_loop (group_by network_source_ip ?recon) = Some r"
    by (simp add: check_reconnaissance_def Let_def split: if_splits)
  from reconnaissance_loop_Some [OF this] obtain ip ip_events
    where b: "(ip, ip_events) \<in> set (group_by network_source_ip ?recon)"
      and n: "20 \<le> length ip_events"
      and r: "c_rule r = ''reconnaissance''"
         "c_event_ids r = map event_id (take 20 ip_events)"
         "c_correlation_id r = generate_correlation_id ip_events ''reconnaissance''"
    by blast
  from n obtain first rest where ms: "ip_events = first # rest"
    by (cases ip_events) auto
  have "subseq ip_events ?recon" using b by (rule group_by_subseq)
  also have "subseq ?recon evs" by simp
  finally have "subseq (first # rest) evs" unfolding ms .
  then show ?thesis
    using r unfolding ms by (intro exI[of _ first] exI[of _ rest] exI[of _ 19]) simp
qed

lemma check_logging_tampering_members:
  assumes "check_logging_tampering evs = Some r"
  shows "\<exists>first rest n. subseq (first # rest) evs
           \<and> c_rule r = ''logging_tampering''
           \<and> c_event_ids r = map event_id (take (Suc n) (first # rest))
           \<and> c_correlation_id r = generate_correlation_id (first # rest) (c_rule r)"
proof -
  let ?ms = "filter (has_event_type (r_event_types rule_logging_tampering)) evs"
  from assms have ne: "?ms \<noteq> []"
    by (auto simp: check_logging_tampering_def Let_def split: if_splits)
  then obtain first rest where ms: "?ms = first # rest"
    by (cases ?ms) auto
  from assms ne have r: "c_rule r = ''logging_tampering''"
      "c_event_ids r = map event_id ?ms"
      "c_correlation_id r = generate_correlation_id ?ms ''logging_tampering''"
    by (auto simp: check_logging_tampering_def Let_def split: if_splits)
  have "subseq ?ms evs" by simp
  then have "subseq (first # rest) evs" unfolding ms .
  moreover have "take (Suc (length rest)) (first # rest) = first # rest" by simp
  ultimately show ?thesis
    using r unfolding ms by (intro exI[of _ first] exI[of _ rest] exI[of _ "length rest"]) simp
qed

lemma fold_scan_step:
  "fold scan_step xs (l0, acc) = (l, iam) \<Longrightarrow>
     (\<exists>ys. iam = acc @ ys \<and> subseq ys xs) \<and> (l = l0 \<or> (\<exists>e \<in> set xs. l = Some e))"
proof (induction xs arbitrary: l0 acc)
  case Nil
  then show ?case by simp
next
  case (Cons x xs)
  obtain l1 acc1 where s: "scan_step x (l0, acc) = (l1, acc1)"
    by (cases "scan_step x (l0, acc)") blast
  then have a: "acc1 = acc \<or> acc1 = acc @ [x]" and l: "l1 = l0 \<or> l1 = Some x"
    by (auto simp: Let_def split: if_splits)
  from Cons.prems s have "fold scan_step xs (l1, acc1) = (l, iam)" by simp
  from Cons.IH [OF this] obtain ys where ys: "iam = acc1 @ ys" "subseq ys xs"
      and l': "l = l1 \<or> (\<exists>e \<in> set xs. l = Some e)"
    by blast
  from a have "\<exists>zs. iam = acc @ zs \<and> subseq zs (x # xs)"
  proof
    assume "acc1 = acc"
    with ys have "iam = acc @ ys \<and> subseq ys (x # xs)" by auto
    then show ?thesis by blast
  next
    assume "acc1 = acc @ [x]"
    with ys have "iam = acc @ (x # ys) \<and> subseq (x # ys) (x # xs)" by simp
    then show ?thesis by blast
  qed
  moreover from l l' have "l = l0 \<or> (\<exists>e \<in> set (x # xs). l = Some e)" by auto
  ultimately show ?case by blast
qed

lemma privilege_escalation_loop_Some:
  "privilege_escalation_loop buckets = Some r \<Longrightarrow>
     \<exists>actor_id actor_events login e es. (actor_id, actor_events) \<in> set buckets
       \<and> fold scan_step (sort_key time_key actor_events) (None, []) = (Some login, e # es)
       \<and> c_rule r = ''privilege_escalation''
       \<and> c_event_ids r = map event_id (login # e # es)
       \<and> c_correlation_id r = generate_correlation_id (login # e # es) ''privilege_escalation''"
proof (induction buckets)
  case Nil
  then show ?case by simp
next
  case (Cons b rest)
  obtain actor_id actor_events where b: "b = (actor_id, actor_events)"
    by (cases b) blast
  obtain l iam where st: "fold scan_step (sort_key time_key actor_events) (None, []) = (l, iam)"
    by (cases "fold scan_step (sort_key time_key actor_events) (None, [])") blast
  show ?case
  proof (cases "\<exists>login e es. l = Some login \<and> iam = e # es")
    case True
    then obtain login e es where le: "l = Some login" "iam = e # es" by blast
    with Cons.prems st b have "c_rule r = ''privilege_escalation''
        \<and> c_event_ids r = map event_id (login # e # es)
        \<and> c_correlation_id r = generate_correlation_id (login # e # es) ''privilege_escalation''"
      by (auto simp: Let_def)
    with st le b show ?thesis
      by (intro exI[of _ actor_id] exI[of _ actor_events] exI[of _ login] exI[of _ e]
            exI[of _ es]) simp
  next
    case False
    with Cons.prems st b have "privilege_escalation_loop rest = Some r"
      by (cases l; cases iam) (simp_all add: Let_def)
    from Cons.IH [OF this] obtain a' evs' login e es where "(a', evs') \<in> set rest"
        "fold scan_step (sort_key time_key evs') (None, []) = (Some login, e # es)"
        "c_rule r = ''privilege_escalation''"
        "c_event_ids r = map event_id (login # e # es)"
        "c_correlation_id r = generate_correlation_id (login # e # es) ''privilege_escalation''"
      by blast
    then show ?thesis
      by (intro exI[of _ a'] exI[of _ evs'] exI[of _ login] exI[of _ e] exI[of _ es]) simp
  qed
qed

lemma run_checks_elem:
  "r \<in> set (run_checks checks evs) \<Longrightarrow> \<exists>check \<in> set checks. check evs = Some r"
  by (induction checks) (auto split: option.splits)

lemma correlate_events_elem:
  "r \<in> set (correlate_events evs) \<Longrightarrow>
     check_brute_force evs = Some r \<or> check_privilege_escalation evs = Some r
     \<or> check_logging_tampering evs = Some r \<or> check_reconnaissance evs = Some r"
  unfolding correlate_events_def by (drule run_checks_elem) auto

lemma check_privilege_escalation_members:
  assumes "check_privilege_escalation evs = Some r"
  shows "\<exists>login iam. login \<in> set evs \<and> set iam \<subseteq> set evs \<and> sorted (map time_key iam)
           \<and> c_rule r = ''privilege_escalation''
           \<and> c_event_ids r = map event_id (login # iam)
           \<and> c_correlation_id r = generate_correlation_id (login # iam) (c_rule r)"
proof -
  from assms have "privilege_escalation_loop (group_by actor_id_of evs) = Some r"
    by (simp add: check_privilege_escalation_def)
  from privilege_escalation_loop_Some [OF this] obtain actor_id actor_events login e es
    where b: "(actor_id, actor_events) \<in> set (group_by actor_id_of evs)"
      and f: "fold scan_step (sort_key time_key actor_events) (None, []) = (Some login, e # es)"
      and r: "c_rule r = ''privilege_escalation''"
         "c_event_ids r = map event_id (login # e # es)"
         "c_correlation_id r = generate_correlation_id (login # e # es) ''privilege_escalation''"
    by blast
  from group_by_subseq [OF b] have "subseq actor_events evs" .
  then have sub: "set actor_events \<subseteq> set evs" by (rule subseq_set)
  from fold_scan_step [OF f] obtain ys where "e # es = [] @ ys"
      "subseq ys (sort_key time_key actor_events)"
      and l: "Some login = None \<or> (\<exists>x \<in> set (sort_key time_key actor_events). Some login = Some x)"
    by blast
  then have iam: "subseq (e # es) (sort_key time_key actor_events)" by simp
  from l have l': "login \<in> set actor_events" by simp
  have "sorted (map time_key (sort_key time_key actor_events))" by simp
  with iam have s: "sorted (map time_key (e # es))" by (rule subseq_time_sorted)
  from subseq_set [OF iam] have m: "set (e # es) \<subseteq> set actor_events" by simp
  from l' sub have 1: "login \<in> set evs" by blast
  from m sub have 2: "set (e # es) \<subseteq> set evs" by blast
  from r have 3: "c_correlation_id r = generate_correlation_id (login # e # es) (c_rule r)"
    by simp
  from 1 2 s r(1,2) 3 show ?thesis by blast
qed

lemma correlate_events_members:
  assumes "r \<in> set (correlate_events evs)"
  shows "(c_rule r \<noteq> ''privilege_escalation''
          \<and> (\<exists>first rest n. subseq (first # rest) evs
                \<and> c_event_ids r = map event_id (take (Suc n) (first # rest))
                \<and> c_correlation_id r = generate_correlation_id (first # rest) (c_rule r)))
       \<or> (c_rule r = ''privilege_escalation''
          \<and> (\<exists>login iam. login \<in> set evs \<and> set iam \<subseteq> set evs \<and> sorted (map time_key iam)
                \<and> c_event_ids r = map event_id (login # iam)
                \<and> c_correlation_id r = generate_correlation_id (login # iam) (c_rule r)))"
proof -
  have other: "\<exists>first rest n. subseq (first # rest) evs \<and> c_rule r = name
           \<and> c_event_ids r = map event_id (take (Suc n) (first # rest))
           \<and> c_correlation_id r = generate_correlation_id (first # rest) (c_rule r)
         \<Longrightarrow> name \<noteq> ''privilege_escalation'' \<Longrightarrow> ?thesis" for name
    by blast
  from correlate_events_elem [OF assms] consider
      "check_brute_force evs = Some r" | "check_privilege_escalation evs = Some r"
    | "check_logging_tampering evs = Some r" | "check_reconnaissance evs = Some r"
    by blast
  then show ?thesis
  proof cases
    case 1
    from check_brute_force_members [OF this] show ?thesis by (rule other) simp
  next
    case 2
    from check_privilege_escalation_members [OF this] show ?thesis by blast
  next
    case 3
    from check_logging_tampering_members [OF this] show ?thesis by (rule other) simp
  next
    case 4
    from check_reconnaissance_members [OF this] show ?thesis by (rule other) simp
  qed
qed

section \<open>Two SHA-256 digests\<close>

text \<open>
  The digests of the strings that \<open>generate_correlation_id\<close> hashes for a logging-tampering
  record whose first member is a \<open>StopLogging\<close> or a \<open>DeleteTrail\<close> event without a
  top-level \<open>source_ip\<close>.  Each is one block; the 64 rounds are evaluated eight at a time.
\<close>

lemma stop_digest_block:
  "be_words (sha256_pad (encode ''logging_tampering:StopLogging:'')) =
     [0x6C6F6767, 0x696E675F, 0x74616D70, 0x6572696E, 0x673A5374, 0x6F704C6F, 0x6767696E, 0x673A8000,
      0x00000000, 0x00000000, 0x00000000, 0x00000000, 0x00000000, 0x00000000, 0x00000000, 0x000000F0]"
  by code_simp

lemma stop_digest_rounds_0:
  "fold sha_step [0x428A2F98, 0x71374491, 0xB5C0FBCF, 0xE9B5DBA5, 0x3956C25B, 0x59F111F1, 0x923F82A4, 0xAB1C5ED5]
     ([0x6C6F6767, 0x696E675F, 0x74616D70, 0x6572696E, 0x673A5374, 0x6F704C6F, 0x6767696E, 0x673A8000,
      0x00000000, 0x00000000, 0x00000000, 0x00000000, 0x00000000, 0x00000000, 0x00000000, 0x000000F0],
      [0x6A09E667, 0xBB67AE85, 0x3C6EF372, 0xA54FF53A, 0x510E527F, 0x9B05688C, 0x1F83D9AB, 0x5BE0CD19]) =
     ([0x00000000, 0x00000000, 0x00000000, 0x00000000, 0x00000000, 0x00000000, 0x00000000, 0x000000F0,
      0x969831E5, 0x1F0D59CB, 0xDD8C7DA6, 0xDE41BFA5, 0xD8B65CA5, 0x61FBCB1C, 0xF9812206, 0x9AC87415],
      [0x5F6EAB46, 0x1BC26142, 0xB3712E61, 0x8AD094E3, 0xCA06A5B4, 0x648858C0, 0xD5C173D2, 0x12AE28E1])"
  by code_simp

lemma stop_digest_rounds_1:
  "fold sha_step [0xD807AA98, 0x12835B01, 0x243185BE, 0x550C7DC3, 0x72BE5D74, 0x80DEB1FE, 0x9BDC06A7, 0xC19BF174]
     ([0x00000000, 0x00000000, 0x00000000, 0x00000000, 0x00000000, 0x00000000, 0x00000000, 0x000000F0,
      0x969831E5, 0x1F0D59CB, 0xDD8C7DA6, 0xDE41BFA5, 0xD8B65CA5, 0x61FBCB1C, 0xF9812206, 0x9AC87415],
      [0x5F6EAB46, 0x1BC26142, 0xB3712E61, 0x8AD094E3, 0xCA06A5B4, 0x648858C0, 0xD5C173D2, 0x12AE28E1]) =
     ([0x969831E5, 0x1F0D59CB, 0xDD8C7DA6, 0xDE41BFA5, 0xD8B65CA5, 0x61FBCB1C, 0xF9812206, 0x9AC87415,
      0xD48B1D83, 0x123B49C6, 0xCB8671B8, 0xA695A22D, 0x58D5684B, 0x5EFBE4F6, 0x943F665E, 0x3904CCC7],
      [0x54A97205, 0x7DE41566, 0x4D90698E, 0x80C35D79, 0x12034EF0, 0x2AE7D607, 0x8AC2BE0F, 0x8B02BE87])"
  by code_simp

lemma stop_digest_rounds_2:
  "fold sha_step [0xE49B69C1, 0xEFBE4786, 0x0FC19DC6, 0x240CA1CC, 0x2DE92C6F, 0x4A7484AA, 0x5CB0A9DC, 0x76F988DA]
     ([0x969831E5, 0x1F0D59CB, 0xDD8C7DA6, 0xDE41BFA5, 0xD8B65CA5, 0x61FBCB1C, 0xF9812206, 0x9AC87415,
      0xD48B1D83, 0x123B49C6, 0xCB8671B8, 0xA695A22D, 0x58D5684B, 0x5EFBE4F6, 0x943F665E, 0x3904CCC7],
      [0x54A97205, 0x7DE41566, 0x4D90698E, 0x80C35D79, 0x12034EF0, 0x2AE7D607, 0x8AC2BE0F, 0x8B02BE87]) =
     ([0xD48B1D83, 0x123B49C6, 0xCB8671B8, 0xA695A22D, 0x58D5684B, 0x5EFBE4F6, 0x943F665E, 0x3904CCC7,
      0xCC428935, 0x33EC2640, 0xD94F31F9, 0x968ADD72, 0x7CE35C68, 0x85B08501, 0x1D95F0DF, 0x93651C42],
      [0xD6B57DCB, 0xBA74D73E, 0x055FBAE0, 0xC33B6504, 0xB991F955, 0xEA424FFC, 0x6F8C517F, 0x5511A91A])"
  by code_simp

lemma stop_digest_rounds_3:
  "fold sha_step [0x983E5152, 0xA831C66D, 0xB00327C8, 0xBF597FC7, 0xC6E00BF3, 0xD5A79147, 0x06CA6351, 0x14292967]
     ([0xD48B1D83, 0x123B49C6, 0xCB8671B8, 0xA695A22D, 0x58D5684B, 0x5EFBE4F6, 0x943F665E, 0x3904CCC7,
      0xCC428935, 0x33EC2640, 0xD94F31F9, 0x968ADD72, 0x7CE35C68, 0x85B08501, 0x1D95F0DF, 0x93651C42],
      [0xD6B57DCB, 0xBA74D73E, 0x055FBAE0, 0xC33B6504, 0xB991F955, 0xEA424FFC, 0x6F8C517F, 0x5511A91A]) =
     ([0xCC428935, 0x33EC2640, 0xD94F31F9, 0x968ADD72, 0x7CE35C68, 0x85B08501, 0x1D95F0DF, 0x93651C42,
      0xAAFCE6EC, 0x0DA22E8D, 0x78A7C4E6, 0x3DC7206F, 0x17D6E4EB, 0x66FF1570, 0x90F4FD88, 0x1C6EDB3C],
      [0x495CE7C4, 0x28240817, 0x7E41DA98, 0xB61BA85B, 0x76C511F6, 0x8857FB2C, 0xFAAB669A, 0xD07EAB4C])"
  by code_simp

lemma stop_digest_rounds_4:
  "fold sha_step [0x27B70A85, 0x2E1B2138, 0x4D2C6DFC, 0x53380D13, 0x650A7354, 0x766A0ABB, 0x81C2C92E, 0x92722C85]
     ([0xCC428935, 0x33EC2640, 0xD94F31F9, 0x968ADD72, 0x7CE35C68, 0x85B08501, 0x1D95F0DF, 0x93651C42,
      0xAAFCE6EC, 0x0DA22E8D, 0x78A7C4E6, 0x3DC7206F, 0x17D6E4EB, 0x66FF1570, 0x90F4FD88, 0x1C6EDB3C],
      [0x495CE7C4, 0x28240817, 0x7E41DA98, 0xB61BA85B, 0x76C511F6, 0x8857FB2C, 0xFAAB669A, 0xD07EAB4C]) =
     ([0xAAFCE6EC, 0x0DA22E8D, 0x78A7C4E6, 0x3DC7206F, 0x17D6E4EB, 0x66FF1570, 0x90F4FD88, 0x1C6EDB3C,
      0x4AC06F9C, 0x88778F41, 0x91E65A41, 0xED4C5D40, 0xFD2C05F7, 0x7D970D40, 0x8CD9E3B6, 0x3AEE3047],
      [0x2DCC362F, 0x97D14D3F, 0x477DBF33, 0xEAAD585F, 0x14245ACE, 0x90DF1327, 0xB413C95A, 0x155D45CD])"
  by code_simp

lemma stop_digest_rounds_5:
  "fold sha_step [0xA2BFE8A1, 0xA81A664B, 0xC24B8B70, 0xC76C51A3, 0xD192E819, 0xD6990624, 0xF40E3585, 0x106AA070]
     ([0xAAFCE6EC, 0x0DA22E8D, 0x78A7C4E6, 0x3DC7206F, 0x17D6E4EB, 0x66FF1570, 0x90F4FD88, 0x1C6EDB3C,
      0x4AC06F9C, 0x88778F41, 0x91E65A41, 0xED4C5D40, 0xFD2C05F7, 0x7D970D40, 0x8CD9E3B6, 0x3AEE3047],
      [0x2DCC362F, 0x97D14D3F, 0x477DBF33, 0xEAAD585F, 0x14245ACE, 0x90DF1327, 0xB413C95A, 0x155D45CD]) =
     ([0x4AC06F9C, 0x88778F41, 0x91E65A41, 0xED4C5D40, 0xFD2C05F7, 0x7D970D40, 0x8CD9E3B6, 0x3AEE3047,
      0x910F5AA0, 0xB08A73B0, 0xBDECE0D2, 0x206547CF, 0xAB1869D9, 0x3B4CB90C, 0xD35A568E, 0xA3521F59],
      [0x95B5CE3A, 0xDAD9CE19, 0xDB47188A, 0xE603432D, 0xDD5AEC43, 0x66BB7D3A, 0xB93C3BE5, 0x75EBFE96])"
  by code_simp

lemma stop_digest_rounds_6:
  "fold sha_step [0x19A4C116, 0x1E376C08, 0x2748774C, 0x34B0BCB5, 0x391C0CB3, 0x4ED8AA4A, 0x5B9CCA4F, 0x682E6FF3]
     ([0x4AC06F9C, 0x88778F41, 0x91E65A41, 0xED4C5D40, 0xFD2C05F7, 0x7D970D40, 0x8CD9E3B6, 0x3AEE3047,
      0x910F5AA0, 0xB08A73B0, 0xBDECE0D2, 0x206547CF, 0xAB1869D9, 0x3B4CB90C, 0xD35A568E, 0xA3521F59],
      [0x95B5CE3A, 0xDAD9CE19, 0xDB47188A, 0xE603432D, 0xDD5AEC43, 0x66BB7D3A, 0xB93C3BE5, 0x75EBFE96]) =
     ([0x910F5AA0, 0xB08A73B0, 0xBDECE0D2, 0x206547CF, 0xAB1869D9, 0x3B4CB90C, 0xD35A568E, 0xA3521F59,
      0xCEBBC58A, 0x9A6304DC, 0xD7B65ACC, 0x6C5A35D3, 0x6A9CAC95, 0xB1A95D80, 0xF9289718, 0x14B1EC29],
      [0xF3BF89E6, 0x06056AC8, 0x117C359E, 0xC1546336, 0x5FAB1373, 0x2B890479, 0x5BF3D274, 0x8BE6E27C])"
  by code_simp

lemma stop_digest_rounds_7:
  "fold sha_step [0x748F82EE, 0x78A5636F, 0x84C87814, 0x8CC70208, 0x90BEFFFA, 0xA4506CEB, 0xBEF9A3F7, 0xC67178F2]
     ([0x910F5AA0, 0xB08A73B0, 0xBDECE0D2, 0x206547CF, 0xAB1869D9, 0x3B4CB90C, 0xD35A568E, 0xA3521F59,
      0xCEBBC58A, 0x9A6304DC, 0xD7B65ACC, 0x6C5A35D3, 0x6A9CAC95, 0xB1A95D80, 0xF9289718, 0x14B1EC29],
      [0xF3BF89E6, 0x06056AC8, 0x117C359E, 0xC1546336, 0x5FAB1373, 0x2B890479, 0x5BF3D274, 0x8BE6E27C]) =
     ([0xCEBBC58A, 0x9A6304DC, 0xD7B65ACC, 0x6C5A35D3, 0x6A9CAC95, 0xB1A95D80, 0xF9289718, 0x14B1EC29,
      0x705FFFC3, 0xDEC83DD1, 0xF60C82EF, 0x60AAB244, 0x5F354EC0, 0xD65631BA, 0x17B6BAE7, 0xEFBA801D],
      [0xF2517F7B, 0x19558921, 0xE8BA90B6, 0x441DB572, 0x78AC64B3, 0xEE122A34, 0x5AD40442, 0x59369BF7])"
  by code_simp

lemma stop_digest_digest:
  "sha256_hexdigest (encode ''logging_tampering:StopLogging:'') =
     ''5c5b65e2d4bd37a625298428e96daaacc9bab732891792c07a57ddedb5176910''"
proof -
  have K: "sha256_K =
         [0x428A2F98, 0x71374491, 0xB5C0FBCF, 0xE9B5DBA5, 0x3956C25B, 0x59F111F1, 0x923F82A4, 0xAB1C5ED5]
       @ [0xD807AA98, 0x12835B01, 0x243185BE, 0x550C7DC3, 0x72BE5D74, 0x80DEB1FE, 0x9BDC06A7, 0xC19BF174]
       @ [0xE49B69C1, 0xEFBE4786, 0x0FC19DC6, 0x240CA1CC, 0x2DE92C6F, 0x4A7484AA, 0x5CB0A9DC, 0x76F988DA]
       @ [0x983E5152, 0xA831C66D, 0xB00327C8, 0xBF597FC7, 0xC6E00BF3, 0xD5A79147, 0x06CA6351, 0x14292967]
       @ [0x27B70A85, 0x2E1B2138, 0x4D2C6DFC, 0x53380D13, 0x650A7354, 0x766A0ABB, 0x81C2C92E, 0x92722C85]
       @ [0xA2BFE8A1, 0xA81A664B, 0xC24B8B70, 0xC76C51A3, 0xD192E819, 0xD6990624, 0xF40E3585, 0x106AA070]
       @ [0x19A4C116, 0x1E376C08, 0x2748774C, 0x34B0BCB5, 0x391C0CB3, 0x4ED8AA4A, 0x5B9CCA4F, 0x682E6FF3]
       @ [0x748F82EE, 0x78A5636F, 0x84C87814, 0x8CC70208, 0x90BEFFFA, 0xA4506CEB, 0xBEF9A3F7, 0xC67178F2]"
    by (simp add: sha256_K_def)
  have rounds: "fold sha_step sha256_K
     ([0x6C6F6767, 0x696E675F, 0x74616D70, 0x6572696E, 0x673A5374, 0x6F704C6F, 0x6767696E, 0x673A8000,
      0x00000000, 0x00000000, 0x00000000, 0x00000000, 0x00000000, 0x00000000, 0x00000000, 0x000000F0],
      sha256_H0) =
     ([0xCEBBC58A, 0x9A6304DC, 0xD7B65ACC, 0x6C5A35D3, 0x6A9CAC95, 0xB1A95D80, 0xF9289718, 0x14B1EC29,
      0x705FFFC3, 0xDEC83DD1, 0xF60C82EF, 0x60AAB244, 0x5F354EC0, 0xD65631BA, 0x17B6BAE7, 0xEFBA801D],
      [0xF2517F7B, 0x19558921, 0xE8BA90B6, 0x441DB572, 0x78AC64B3, 0xEE122A34, 0x5AD40442, 0x59369BF7])"
    unfolding K sha256_H0_def fold_append comp_def
    by (simp only: stop_digest_rounds_0 stop_digest_rounds_1 stop_digest_rounds_2 stop_digest_rounds_3 stop_digest_rounds_4 stop_digest_rounds_5 stop_digest_rounds_6 stop_digest_rounds_7)
  have blk: "blocks [0x6C6F6767, 0x696E675F, 0x74616D70, 0x6572696E, 0x673A5374, 0x6F704C6F, 0x6767696E, 0x673A8000,
             0x00000000, 0x00000000, 0x00000000, 0x00000000, 0x00000000, 0x00000000, 0x00000000, 0x000000F0] =
     [[0x6C6F6767, 0x696E675F, 0x74616D70, 0x6572696E, 0x673A5374, 0x6F704C6F, 0x6767696E, 0x673A8000,
       0x00000000, 0x00000000, 0x00000000, 0x00000000, 0x00000000, 0x00000000, 0x00000000, 0x000000F0]]"
    by simp
  have fin: "concat (map hex32 (map2 (+) sha256_H0
     [0xF2517F7B, 0x19558921, 0xE8BA90B6, 0x441DB572, 0x78AC64B3, 0xEE122A34, 0x5AD40442, 0x59369BF7])) =
     ''5c5b65e2d4bd37a625298428e96daaacc9bab732891792c07a57ddedb5176910''"
    by code_simp
  show ?thesis
    by (simp only: sha256_hexdigest_def stop_digest_block blk fold.simps id_apply comp_apply
          compress_def rounds snd_conv fin)
qed

lemma delete_digest_block:
  "be_words (sha256_pad (encode ''logging_tampering:DeleteTrail:'')) =
     [0x6C6F6767, 0x696E675F, 0x74616D70, 0x6572696E, 0x673A4465, 0x6C657465, 0x54726169, 0x6C3A8000,
      0x00000000, 0x00000000, 0x00000000, 0x00000000, 0x00000000, 0x00000000, 0x00000000, 0x000000F0]"
  by code_simp

lemma delete_digest_rounds_0:
  "fold sha_step [0x428A2F98, 0x71374491, 0xB5C0FBCF, 0xE9B5DBA5, 0x3956C25B, 0x59F111F1, 0x923F82A4, 0xAB1C5ED5]
     ([0x6C6F6767, 0x696E675F, 0x74616D70, 0x6572696E, 0x673A4465, 0x6C657465, 0x54726169, 0x6C3A8000,
      0x00000000, 0x00000000, 0x00000000, 0x00000000, 0x00000000, 0x00000000, 0x00000000, 0x000000F0],
      [0x6A09E667, 0xBB67AE85, 0x3C6EF372, 0xA54FF53A, 0x510E527F, 0x9B05688C, 0x1F83D9AB, 0x5BE0CD19]) =
     ([0x00000000, 0x00000000, 0x00000000, 0x00000000, 0x00000000, 0x00000000, 0x00000000, 0x000000F0,
      0x969831E5, 0x1F0D59CB, 0xDD8C7DA6, 0xC47DFE69, 0xB2D85A4A, 0xEDAB3826, 0x28125988, 0xFDFF7393],
      [0x377F0E31, 0x0D48AD8E, 0x4BF8F63A, 0x8AD085D4, 0xE9DF5C7D, 0x707AB867, 0x283E2266, 0x12AE19D2])"
  by code_simp

lemma delete_digest_rounds_1:
  "fold sha_step [0xD807AA98, 0x12835B01, 0x243185BE, 0x550C7DC3, 0x72BE5D74, 0x80DEB1FE, 0x9BDC06A7, 0xC19BF174]
     ([0x00000000, 0x00000000, 0x00000000, 0x00000000, 0x00000000, 0x00000000, 0x00000000, 0x000000F0,
      0x969831E5, 0x1F0D59CB, 0xDD8C7DA6, 0xC47DFE69, 0xB2D85A4A, 0xEDAB3826, 0x28125988, 0xFDFF7393],
      [0x377F0E31, 0x0D48AD8E, 0x4BF8F63A, 0x8AD085D4, 0xE9DF5C7D, 0x707AB867, 0x283E2266, 0x12AE19D2]) =
     ([0x969831E5, 0x1F0D59CB, 0xDD8C7DA6, 0xC47DFE69, 0xB2D85A4A, 0xEDAB3826, 0x28125988, 0xFDFF7393,
      0x870C6F68, 0x35117C42, 0x7EF68EE5, 0x447C72BF, 0x845CE52C, 0xDF2BAF35, 0xCC4E394E, 0xFEDF62EC],
      [0x2B95252F, 0x04F70A95, 0x89293352, 0x0606A35E, 0xF6EBB71A, 0x923277AC, 0x28ADC901, 0xE3AE76F5])"
  by code_simp

lemma delete_digest_rounds_2:
  "fold sha_step [0xE49B69C1, 0xEFBE4786, 0x0FC19DC6, 0x240CA1CC, 0x2DE92C6F, 0x4A7484AA, 0x5CB0A9DC, 0x76F988DA]
     ([0x969831E5, 0x1F0D59CB, 0xDD8C7DA6, 0xC47DFE69, 0xB2D85A4A, 0xEDAB3826, 0x28125988, 0xFDFF7393,
      0x870C6F68, 0x35117C42, 0x7EF68EE5, 0x447C72BF, 0x845CE52C, 0xDF2BAF35, 0xCC4E394E, 0xFEDF62EC],
      [0x2B95252F, 0x04F70A95, 0x89293352, 0x0606A35E, 0xF6EBB71A, 0x923277AC, 0x28ADC901, 0xE3AE76F5]) =
     ([0x870C6F68, 0x35117C42, 0x7EF68EE5, 0x447C72BF, 0x845CE52C, 0xDF2BAF35, 0xCC4E394E, 0xFEDF62EC,
      0x6B14D090, 0x447B6048, 0xC8E7236F, 0xBAC32F4A, 0xA653B844, 0x2F8C91EC, 0xB695FF6B, 0x1E0A6A26],
      [0x590B9BE1, 0x61C0853B, 0x285987DB, 0xA0445135, 0xFA6149D7, 0x7F82BB1D, 0x3DDCCD55, 0x4D32290C])"
  by code_simp

lemma delete_digest_rounds_3:
  "fold sha_step [0x983E5152, 0xA831C66D, 0xB00327C8, 0xBF597FC7, 0xC6E00BF3, 0xD5A79147, 0x06CA6351, 0x14292967]
     ([0x870C6F68, 0x35117C42, 0x7EF68EE5, 0x447C72BF, 0x845CE52C, 0xDF2BAF35, 0xCC4E394E, 0xFEDF62EC,
      0x6B14D090, 0x447B6048, 0xC8E7236F, 0xBAC32F4A, 0xA653B844, 0x2F8C91EC, 0xB695FF6B, 0x1E0A6A26],
      [0x590B9BE1, 0x61C0853B, 0x285987DB, 0xA0445135, 0xFA6149D7, 0x7F82BB1D, 0x3DDCCD55, 0x4D32290C]) =
     ([0x6B14D090, 0x447B6048, 0xC8E7236F, 0xBAC32F4A, 0xA653B844, 0x2F8C91EC, 0xB695FF6B, 0x1E0A6A26,
      0xE9D558CB, 0xDCE3518B, 0xABA96262, 0x1E5BDCB4, 0xECD7B783, 0x35CFB0F9, 0x3600CEBF, 0x30B434DF],
      [0x8482AD8B, 0x19234B1C, 0x4D21FD8B, 0x8BD99032, 0x20451A96, 0xD5623CF3, 0xECD5F9FA, 0x6D5AC80E])"
  by code_simp

lemma delete_digest_rounds_4:
  "fold sha_step [0x27B70A85, 0x2E1B2138, 0x4D2C6DFC, 0x53380D13, 0x650A7354, 0x766A0ABB, 0x81C2C92E, 0x92722C85]
     ([0x6B14D090, 0x447B6048, 0xC8E7236F, 0xBAC32F4A, 0xA653B844, 0x2F8C91EC, 0xB695FF6B, 0x1E0A6A26,
      0xE9D558CB, 0xDCE3518B, 0xABA96262, 0x1E5BDCB4, 0xECD7B783, 0x35CFB0F9, 0x3600CEBF, 0x30B434DF],
      [0x8482AD8B, 0x19234B1C, 0x4D21FD8B, 0x8BD99032, 0x20451A96, 0xD5623CF3, 0xECD5F9FA, 0x6D5AC80E]) =
     ([0xE9D558CB, 0xDCE3518B, 0xABA96262, 0x1E5BDCB4, 0xECD7B783, 0x35CFB0F9, 0x3600CEBF, 0x30B434DF,
      0x0693ABE5, 0x9B73EDFD, 0xD1D1D49B, 0xA69A82E5, 0xA6E3D0E1, 0x34FA9B9F, 0x4F0471B5, 0x202B542C],
      [0x39021754, 0x80BBEB0E, 0x8E96D865, 0x5010FD4D, 0xAF937CEF, 0xE1D76E43, 0x55BFCAA8, 0xFC416349])"
  by code_simp

lemma delete_digest_rounds_5:
  "fold sha_step [0xA2BFE8A1, 0xA81A664B, 0xC24B8B70, 0xC76C51A3, 0xD192E819, 0xD6990624, 0xF40E3585, 0x106AA070]
     ([0xE9D558CB, 0xDCE3518B, 0xABA96262, 0x1E5BDCB4, 0xECD7B783, 0x35CFB0F9, 0x3600CEBF, 0x30B434DF,
      0x0693ABE5, 0x9B73EDFD, 0xD1D1D49B, 0xA69A82E5, 0xA6E3D0E1, 0x34FA9B9F, 0x4F0471B5, 0x202B542C],
      [0x39021754, 0x80BBEB0E, 0x8E96D865, 0x5010FD4D, 0xAF937CEF, 0xE1D76E43, 0x55BFCAA8, 0xFC416349]) =
     ([0x0693ABE5, 0x9B73EDFD, 0xD1D1D49B, 0xA69A82E5, 0xA6E3D0E1, 0x34FA9B9F, 0x4F0471B5, 0x202B542C,
      0x149071F0, 0xF80B994D, 0x25E1DDC6, 0x7C949221, 0x1011256A, 0xAB23AD74, 0xC188940D, 0x08A8C27C],
      [0xD091865F, 0xA82E72EE, 0x42316716, 0x7717C829, 0xE52EEBEF, 0x4F363CA7, 0xE9393104, 0x4EEB4434])"
  by code_simp

lemma delete_digest_rounds_6:
  "fold sha_step [0x19A4C116, 0x1E376C08, 0x2748774C, 0x34B0BCB5, 0x391C0CB3, 0x4ED8AA4A, 0x5B9CCA4F, 0x682E6FF3]
     ([0x0693ABE5, 0x9B73EDFD, 0xD1D1D49B, 0xA69A82E5, 0xA6E3D0E1, 0x34FA9B9F, 0x4F0471B5, 0x202B542C,
      0x149071F0, 0xF80B994D, 0x25E1DDC6, 0x7C949221, 0x1011256A, 0xAB23AD74, 0xC188940D, 0x08A8C27C],
      [0xD091865F, 0xA82E72EE, 0x42316716, 0x7717C829, 0xE52EEBEF, 0x4F363CA7, 0xE9393104, 0x4EEB4434]) =
     ([0x149071F0, 0xF80B994D, 0x25E1DDC6, 0x7C949221, 0x1011256A, 0xAB23AD74, 0xC188940D, 0x08A8C27C,
      0x6A7E7CBA, 0x9388E882, 0xBF5E5BAA, 0x43CB75E3, 0xD6A8C9A1, 0x49F44001, 0x5ECCE40B, 0x3183EDB3],
      [0xB40466DD, 0xCFB2AC04, 0x1E6BE117, 0x2DF3BC89, 0x2C3FBE87, 0xC71350A3, 0xEE2A241B, 0xD4E1AFDF])"
  by code_simp

lemma delete_digest_rounds_7:
  "fold sha_step [0x748F82EE, 0x78A5636F, 0x84C87814, 0x8CC70208, 0x90BEFFFA, 0xA4506CEB, 0xBEF9A3F7, 0xC67178F2]
     ([0x149071F0, 0xF80B994D, 0x25E1DDC6, 0x7C949221, 0x1011256A, 0xAB23AD74, 0xC188940D, 0x08A8C27C,
      0x6A7E7CBA, 0x9388E882, 0xBF5E5BAA, 0x43CB75E3, 0xD6A8C9A1, 0x49F44001, 0x5ECCE40B, 0x3183EDB3],
      [0xB40466DD, 0xCFB2AC04, 0x1E6BE117, 0x2DF3BC89, 0x2C3FBE87, 0xC71350A3, 0xEE2A241B, 0xD4E1AFDF]) =
     ([0x6A7E7CBA, 0x9388E882, 0xBF5E5BAA, 0x43CB75E3, 0xD6A8C9A1, 0x49F44001, 0x5ECCE40B, 0x3183EDB3,
      0xF94EEC11, 0x4254047C, 0x7F45C823, 0x75571B06, 0xCE7E7EDF, 0x9FA0A711, 0xAD2F4F10, 0x2FFA6C8B],
      [0xF30F2C50, 0x22A59F41, 0x24FDD5C1, 0xAF7C8E57, 0x79771943, 0x199BEA30, 0xAE96AD74, 0x3DA80FEA])"
  by code_simp

lemma delete_digest_digest:
  "sha256_hexdigest (encode ''logging_tampering:DeleteTrail:'') =
     ''5d1912b7de0d4dc6616cc93354cc8391ca856bc2b4a152bcce1a871f9988dd03''"
proof -
  have K: "sha256_K =
         [0x428A2F98, 0x71374491, 0xB5C0FBCF, 0xE9B5DBA5, 0x3956C25B, 0x59F111F1, 0x923F82A4, 0xAB1C5ED5]
       @ [0xD807AA98, 0x12835B01, 0x243185BE, 0x550C7DC3, 0x72BE5D74, 0x80DEB1FE, 0x9BDC06A7, 0xC19BF174]
       @ [0xE49B69C1, 0xEFBE4786, 0x0FC19DC6, 0x240CA1CC, 0x2DE92C6F, 0x4A7484AA, 0x5CB0A9DC, 0x76F988DA]
       @ [0x983E5152, 0xA831C66D, 0xB00327C8, 0xBF597FC7, 0xC6E00BF3, 0xD5A79147, 0x06CA6351, 0x14292967]
       @ [0x27B70A85, 0x2E1B2138, 0x4D2C6DFC, 0x53380D13, 0x650A7354, 0x766A0ABB, 0x81C2C92E, 0x92722C85]
       @ [0xA2BFE8A1, 0xA81A664B, 0xC24B8B70, 0xC76C51A3, 0xD192E819, 0xD6990624, 0xF40E3585, 0x106AA070]
       @ [0x19A4C116, 0x1E376C08, 0x2748774C, 0x34B0BCB5, 0x391C0CB3, 0x4ED8AA4A, 0x5B9CCA4F, 0x682E6FF3]
       @ [0x748F82EE, 0x78A5636F, 0x84C87814, 0x8CC70208, 0x90BEFFFA, 0xA4506CEB, 0xBEF9A3F7, 0xC67178F2]"
    by (simp add: sha256_K_def)
  have rounds: "fold sha_step sha256_K
     ([0x6C6F6767, 0x696E675F, 0x74616D70, 0x6572696E, 0x673A4465, 0x6C657465, 0x54726169, 0x6C3A8000,
      0x00000000, 0x00000000, 0x00000000, 0x00000000, 0x00000000, 0x00000000, 0x00000000, 0x000000F0],
      sha256_H0) =
     ([0x6A7E7CBA, 0x9388E882, 0xBF5E5BAA, 0x43CB75E3, 0xD6A8C9A1, 0x49F44001, 0x5ECCE40B, 0x3183EDB3,
      0xF94EEC11, 0x4254047C, 0x7F45C823, 0x75571B06, 0xCE7E7EDF, 0x9FA0A711, 0xAD2F4F10, 0x2FFA6C8B],
      [0xF30F2C50, 0x22A59F41, 0x24FDD5C1, 0xAF7C8E57, 0x79771943, 0x199BEA30, 0xAE96AD74, 0x3DA80FEA])"
    unfolding K sha256_H0_def fold_append comp_def
    by (simp only: delete_digest_rounds_0 delete_digest_rounds_1 delete_digest_rounds_2 delete_digest_rounds_3 delete_digest_rounds_4 delete_digest_rounds_5 delete_digest_rounds_6 delete_digest_rounds_7)
  have blk: "blocks [0x6C6F6767, 0x696E675F, 0x74616D70, 0x6572696E, 0x673A4465, 0x6C657465, 0x54726169, 0x6C3A8000,
             0x00000000, 0x00000000, 0x00000000, 0x00000000, 0x00000000, 0x00000000, 0x00000000, 0x000000F0] =
     [[0x6C6F6767, 0x696E675F, 0x74616D70, 0x6572696E, 0x673A4465, 0x6C657465, 0x54726169, 0x6C3A8000,
       0x00000000, 0x00000000, 0x00000000, 0x00000000, 0x00000000, 0x00000000, 0x00000000, 0x000000F0]]"
    by simp
  have fin: "concat (map hex32 (map2 (+) sha256_H0
     [0xF30F2C50, 0x22A59F41, 0x24FDD5C1, 0xAF7C8E57, 0x79771943, 0x199BEA30, 0xAE96AD74, 0x3DA80FEA])) =
     ''5d1912b7de0d4dc6616cc93354cc8391ca856bc2b4a152bcce1a871f9988dd03''"
    by code_simp
  show ?thesis
    by (simp only: sha256_hexdigest_def delete_digest_block blk fold.simps id_apply comp_apply
          compress_def rounds snd_conv fin)
qed

section \<open>Order of the event ids and the correlation id\<close>

lemma stop_logging_id:
  "generate_correlation_id (stop_logging # rest) ''logging_tampering'' = ''5c5b65e2d4bd37a6''"
  by (simp add: generate_correlation_id_def stop_logging_def stored_event_def get_default_def
        stop_digest_digest)

lemma delete_trail_id:
  "generate_correlation_id (delete_trail # rest) ''logging_tampering'' = ''5d1912b7de0d4dc6''"
  by (simp add: generate_correlation_id_def delete_trail_def stored_event_def get_default_def
        delete_digest_digest)

lemma tampering_types:
  "has_event_type (r_event_types rule_logging_tampering) stop_logging"
  "has_event_type (r_event_types rule_logging_tampering) delete_trail"
  "\<not> has_event_type (r_event_types rule_brute_force) stop_logging"
  "\<not> has_event_type (r_event_types rule_brute_force) delete_trail"
  "\<not> is_recon stop_logging"
  "\<not> is_recon delete_trail"
  "actor_id_of stop_logging = ''mallory''"
  "actor_id_of delete_trail = ''mallory''"
  "event_id stop_logging = Some ''evt-stop''"
  "event_id delete_trail = Some ''evt-delete''"
  "time_key stop_logging = ''2024-05-01T10:00:00+00:00''"
  "time_key delete_trail = ''2024-05-01T10:05:00+00:00''"
  by (simp_all add: has_event_type_def is_recon_def actor_id_of_def time_key_def
        rule_logging_tampering_def rule_brute_force_def rule_reconnaissance_def
        stop_logging_def delete_trail_def stored_event_def get_default_def)

lemma tampering_types_listed:
  "has_event_type [''StopLogging'', ''DeleteTrail'', ''UpdateTrail''] stop_logging"
  "has_event_type [''StopLogging'', ''DeleteTrail'', ''UpdateTrail''] delete_trail"
  "\<not> has_event_type [''ConsoleLogin''] stop_logging"
  "\<not> has_event_type [''ConsoleLogin''] delete_trail"
  using tampering_types(1-4)
  by (simp_all add: rule_logging_tampering_def rule_brute_force_def)

lemma tampering_scan:
  "scan_step stop_logging st = st"
  "scan_step delete_trail st = st"
  by (cases st; simp add: stop_logging_def delete_trail_def stored_event_def get_default_def
        iam_change_types_def)+

lemma correlate_stop_then_delete:
  "correlate_events [stop_logging, delete_trail] =
     [tampering_record [Some ''evt-stop'', Some ''evt-delete''] ''5c5b65e2d4bd37a6'']"
  by (simp add: correlate_events_def check_brute_force_def check_privilege_escalation_def
        check_logging_tampering_def check_reconnaissance_def group_by_def tampering_types
        tampering_types_listed
        tampering_scan stop_logging_id rule_brute_force_def rule_reconnaissance_def
        tampering_record_def rule_logging_tampering_def rule_privilege_escalation_def
      del: scan_step.simps)

lemma correlate_delete_then_stop:
  "correlate_events [delete_trail, stop_logging] =
     [tampering_record [Some ''evt-delete'', Some ''evt-stop''] ''5d1912b7de0d4dc6'']"
  by (simp add: correlate_events_def check_brute_force_def check_privilege_escalation_def
        check_logging_tampering_def check_reconnaissance_def group_by_def tampering_types
        tampering_types_listed
        tampering_scan delete_trail_id rule_brute_force_def rule_reconnaissance_def
        tampering_record_def rule_logging_tampering_def rule_privilege_escalation_def
      del: scan_step.simps)




text \<open>
  C1, as the specification states it, fails: the same two member events give the
  correlation id \<open>5c5b65e2d4bd37a6\<close> when the window holds the \<open>StopLogging\<close> event first
  and \<open>5d1912b7de0d4dc6\<close> when it holds the \<open>DeleteTrail\<close> event first, although
  \<open>StopLogging\<close> is the chronologically earliest member in both.
\<close>

theorem correlation_id_order_counterexample:
  "map c_correlation_id (correlate_events [stop_logging, delete_trail]) = [''5c5b65e2d4bd37a6'']
   \<and> map c_correlation_id (correlate_events [delete_trail, stop_logging]) = [''5d1912b7de0d4dc6'']
   \<and> map c_correlation_id (correlate_events [stop_logging, delete_trail])
       \<noteq> map c_correlation_id (correlate_events [delete_trail, stop_logging])
   \<and> time_key stop_logging < time_key delete_trail"
  by (simp add: correlate_stop_then_delete correlate_delete_then_stop tampering_record_def
        tampering_types)

text \<open>
  C1, amended.  Every emitted record has a list of member events of the input, of which
  \<open>event_ids\<close> lists the ids (reconnaissance the first twenty), and its correlation id is
  the first 16 hexadecimal characters of the SHA-256 of a string that begins with
  \<open>rule_name + ":" + first.event_type + ":"\<close>, where \<open>first\<close> is the member that the record
  lists first: for \<open>brute_force\<close>, \<open>logging_tampering\<close> and \<open>reconnaissance\<close> the member that
  stands first in the input list, for \<open>privilege_escalation\<close> the tracked login.  The
  members are not sorted by \<open>event_time\<close> before the first is chosen.  The id is a function
  of the rule name and of that first member alone, so identical member events presented
  in the same order give the same id.
\<close>

theorem correlation_id_of_first_listed_member:
  assumes "r \<in> set (correlate_events evs)"
  shows "\<exists>first rest n sfx. set (first # rest) \<subseteq> set evs
           \<and> c_event_ids r = map event_id (take (Suc n) (first # rest))
           \<and> (c_rule r \<noteq> ''privilege_escalation'' \<longrightarrow> subseq (first # rest) evs)
           \<and> c_correlation_id r = generate_correlation_id [first] (c_rule r)
           \<and> c_correlation_id r = take 16 (sha256_hexdigest (encode
                 (c_rule r @ '':'' @ get_default (event_type first) [] @ '':'' @ sfx)))"
proof -
  have g: "generate_correlation_id (first # rest) name = generate_correlation_id [first] name"
    for first rest name
    by (simp add: generate_correlation_id_def)
  have h: "generate_correlation_id [first] name = take 16 (sha256_hexdigest (encode
             (name @ '':'' @ get_default (event_type first) [] @ '':''
              @ get_default (source_ip first) [])))"
    for first name
    by (simp add: generate_correlation_id_def)
  from correlate_events_members [OF assms] show ?thesis
  proof
    assume "c_rule r \<noteq> ''privilege_escalation''
          \<and> (\<exists>first rest n. subseq (first # rest) evs
                \<and> c_event_ids r = map event_id (take (Suc n) (first # rest))
                \<and> c_correlation_id r = generate_correlation_id (first # rest) (c_rule r))"
    then obtain first rest n where s: "subseq (first # rest) evs"
        and i: "c_event_ids r = map event_id (take (Suc n) (first # rest))"
        and c: "c_correlation_id r = generate_correlation_id (first # rest) (c_rule r)"
      by blast
    from s have sub: "set (first # rest) \<subseteq> set evs" by (rule subseq_set)
    from c g [of first rest "c_rule r"]
    have k: "c_correlation_id r = generate_correlation_id [first] (c_rule r)" by (rule trans)
    from k h [of first "c_rule r"]
    have k2: "c_correlation_id r = take 16 (sha256_hexdigest (encode
        (c_rule r @ '':'' @ get_default (event_type first) [] @ '':''
         @ get_default (source_ip first) [])))"
      by (rule trans)
    from sub i s k k2 show ?thesis
      by (intro exI[of _ first] exI[of _ rest] exI[of _ n]
            exI[of _ "get_default (source_ip first) []"] conjI impI)
  next
    assume "c_rule r = ''privilege_escalation''
          \<and> (\<exists>login iam. login \<in> set evs \<and> set iam \<subseteq> set evs \<and> sorted (map time_key iam)
                \<and> c_event_ids r = map event_id (login # iam)
                \<and> c_correlation_id r = generate_correlation_id (login # iam) (c_rule r))"
    then obtain login iam where p: "c_rule r = ''privilege_escalation''"
        and l: "login \<in> set evs" "set iam \<subseteq> set evs"
        and i: "c_event_ids r = map event_id (login # iam)"
        and c: "c_correlation_id r = generate_correlation_id (login # iam) (c_rule r)"
      by blast
    from l have sub: "set (login # iam) \<subseteq> set evs" by simp
    have "take (Suc (length iam)) (login # iam) = login # iam" by simp
    with i have i': "c_event_ids r = map event_id (take (Suc (length iam)) (login # iam))"
      by simp
    from p have np: "c_rule r \<noteq> ''privilege_escalation'' \<longrightarrow> subseq (login # iam) evs"
      by simp
    from c g [of login iam "c_rule r"]
    have k: "c_correlation_id r = generate_correlation_id [login] (c_rule r)" by (rule trans)
    from k h [of login "c_rule r"]
    have k2: "c_correlation_id r = take 16 (sha256_hexdigest (encode
        (c_rule r @ '':'' @ get_default (event_type login) [] @ '':''
         @ get_default (source_ip login) [])))"
      by (rule trans)
    from sub i' np k k2 show ?thesis
      by (intro exI[of _ login] exI[of _ iam] exI[of _ "length iam"]
            exI[of _ "get_default (source_ip login) []"] conjI)
  qed
qed

theorem correlation_id_of_first_listed_member_witness:
  "\<exists>first rest n sfx. set (first # rest) \<subseteq> set [delete_trail, stop_logging]
      \<and> [Some ''evt-delete'', Some ''evt-stop''] = map event_id (take (Suc n) (first # rest))
      \<and> subseq (first # rest) [delete_trail, stop_logging]
      \<and> ''5d1912b7de0d4dc6'' = generate_correlation_id [first] ''logging_tampering''
      \<and> ''5d1912b7de0d4dc6'' = take 16 (sha256_hexdigest (encode
            (''logging_tampering'' @ '':'' @ get_default (event_type first) [] @ '':'' @ sfx)))"
proof -
  let ?r = "tampering_record [Some ''evt-delete'', Some ''evt-stop''] ''5d1912b7de0d4dc6''"
  let ?E = "[delete_trail, stop_logging]"
  have m: "?r \<in> set (correlate_events ?E)"
    by (simp add: correlate_delete_then_stop)
  have f: "c_rule ?r = ''logging_tampering''"
      "c_event_ids ?r = [Some ''evt-delete'', Some ''evt-stop'']"
      "c_correlation_id ?r = ''5d1912b7de0d4dc6''"
    by (simp_all add: tampering_record_def)
  have n: "''logging_tampering'' \<noteq> ''privilege_escalation''" by simp
  from correlation_id_of_first_listed_member [OF m]
  obtain first rest k sfx where a: "set (first # rest) \<subseteq> set ?E"
      "c_event_ids ?r = map event_id (take (Suc k) (first # rest))"
      "c_rule ?r \<noteq> ''privilege_escalation'' \<longrightarrow> subseq (first # rest) ?E"
      "c_correlation_id ?r = generate_correlation_id [first] (c_rule ?r)"
      "c_correlation_id ?r = take 16 (sha256_hexdigest (encode
         (c_rule ?r @ '':'' @ get_default (event_type first) [] @ '':'' @ sfx)))"
    by (elim exE conjE)
  from a(3) n have b: "subseq (first # rest) ?E" unfolding f by (rule mp)
  from a(1) a(2) [unfolded f] b a(4) [unfolded f] a(5) [unfolded f] show ?thesis
    by (intro exI[of _ first] exI[of _ rest] exI[of _ k] exI[of _ sfx] conjI)
qed

section \<open>Properties of the risk score and of the alerting decision\<close>

lemma severity_base_ge_10: "10 \<le> dict_get severity_scores k 10"
  by (simp add: dict_get_def severity_scores_def)

lemma membership_fold_ge:
  "s \<le> fold (\<lambda>c s. if P c then s + (20::int) else s) cs s"
proof (induction cs arbitrary: s)
  case Nil
  show ?case by simp
next
  case (Cons c cs)
  have "s \<le> (if P c then s + 20 else s)" by simp
  also have "\<dots> \<le> fold (\<lambda>c s. if P c then s + 20 else s) cs (if P c then s + 20 else s)"
    by (rule Cons.IH)
  finally show ?case by simp
qed

text \<open>
  C9.  For every event dictionary and every list of correlation records the risk score is
  an integer between 10 and 100: the base is at least 10 for every severity value, also a
  missing or an unknown one, and every other term is non-negative.
\<close>

theorem risk_score_bounds:
  "10 \<le> calculate_risk_score ev correlations \<and> calculate_risk_score ev correlations \<le> 100"
proof -
  let ?P = "\<lambda>c. Some (get_default (event_id ev) '''') \<in> set (c_event_ids c)"
  let ?base = "dict_get severity_scores (get_default (severity ev) ''info'') 10"
  have "10 \<le> ?base" by (rule severity_base_ge_10)
  also have "?base \<le> fold (\<lambda>c s. if ?P c then s + 20 else s) correlations ?base"
    by (rule membership_fold_ge)
  finally have "10 \<le> fold (\<lambda>c s. if ?P c then s + 20 else s) correlations ?base" .
  then show ?thesis
    by (simp add: calculate_risk_score_def Let_def)
qed

text \<open>
  C8.  Under the default configuration (threshold severity \<open>high\<close>, risk-score threshold 70)
  \<open>should_alert\<close> is true exactly when the severity of the event is critical, or it is
  high, or the risk score is at least 70.
\<close>

theorem should_alert_default:
  "should_alert default_config ev risk_score =
     (severity ev = Some ''critical'' \<or> severity ev = Some ''high'' \<or> risk_score \<ge> 70)"
  by (cases "severity ev") (auto simp: should_alert_def default_config_def get_default_def)

end
